theory Spec2Isabelle
  imports Main "HOL-Library.Word"
begin

unbundle bit_operations_syntax

section \<open>Values of the JavaScript program\<close>

text \<open>
  The program is browser JavaScript (\<^verbatim>\<open>crypto.js\<close>, the 271-line file, and
  \<^verbatim>\<open>crypto-alternative.js\<close>). A JavaScript string is a sequence of 16-bit UTF-16
  code units, an \<^verbatim>\<open>ArrayBuffer\<close> or \<^verbatim>\<open>Uint8Array\<close> a sequence of bytes. String
  literals of the source are written with \<open>str\<close>, which maps each ASCII character to
  its code unit.
\<close>

type_synonym byte = "8 word"
type_synonym bytes = "8 word list"
type_synonym jsstring = "16 word list"

definition str :: "string \<Rightarrow> jsstring" where
  "str s = map (\<lambda>c. word_of_nat (of_char c)) s"

text \<open>The constants at the head of \<^verbatim>\<open>crypto.js\<close>.\<close>

definition PBKDF2_ITERATIONS :: nat where
  "PBKDF2_ITERATIONS = 100000"

definition KEY_LENGTH :: nat where
  "KEY_LENGTH = 256"

definition GCM_IV_LENGTH :: nat where
  "GCM_IV_LENGTH = 12"

definition GCM_TAG_LENGTH :: nat where
  "GCM_TAG_LENGTH = 128"

section \<open>The platform's text encoder\<close>

text \<open>
  \<^verbatim>\<open>new TextEncoder().encode(s)\<close> first reads the string as Unicode scalar values: a
  high surrogate followed by a low surrogate is one supplementary code point, any other
  surrogate code unit becomes U+FFFD. Each scalar value is then written in UTF-8.
\<close>

definition is_high_surrogate :: "16 word \<Rightarrow> bool" where
  "is_high_surrogate u = (0xD800 \<le> unat u \<and> unat u \<le> 0xDBFF)"

definition is_low_surrogate :: "16 word \<Rightarrow> bool" where
  "is_low_surrogate u = (0xDC00 \<le> unat u \<and> unat u \<le> 0xDFFF)"

definition scalar_of_unit :: "16 word \<Rightarrow> nat" where
  "scalar_of_unit u =
     (if is_high_surrogate u \<or> is_low_surrogate u then 0xFFFD else unat u)"

fun code_points :: "jsstring \<Rightarrow> nat list" where
  "code_points [] = []"
| "code_points [u] = [scalar_of_unit u]"
| "code_points (u # v # r) =
     (if is_high_surrogate u \<and> is_low_surrogate v
      then (0x10000 + (unat u - 0xD800) * 0x400 + (unat v - 0xDC00)) # code_points r
      else scalar_of_unit u # code_points (v # r))"

definition utf8_bytes :: "nat \<Rightarrow> bytes" where
  "utf8_bytes c =
     (if c < 0x80 then [word_of_nat c]
      else if c < 0x800 then
        [word_of_nat (0xC0 + c div 0x40), word_of_nat (0x80 + c mod 0x40)]
      else if c < 0x10000 then
        [word_of_nat (0xE0 + c div 0x1000), word_of_nat (0x80 + c div 0x40 mod 0x40),
         word_of_nat (0x80 + c mod 0x40)]
      else
        [word_of_nat (0xF0 + c div 0x40000), word_of_nat (0x80 + c div 0x1000 mod 0x40),
         word_of_nat (0x80 + c div 0x40 mod 0x40), word_of_nat (0x80 + c mod 0x40)])"

definition TextEncoder_encode :: "jsstring \<Rightarrow> bytes" where
  "TextEncoder_encode s = concat (map utf8_bytes (code_points s))"

section \<open>SHA-256\<close>

text \<open>
  \<^verbatim>\<open>crypto.subtle.digest('SHA-256', data)\<close> is the hash function of FIPS 180-4 on
  32-bit words: the message is padded with the byte 0x80, zero bytes and its length in
  bits as a 64-bit big-endian number, to a multiple of 64 bytes; every 64-byte block
  updates the eight-word state.
\<close>

type_synonym w32 = "32 word"

definition K256 :: "w32 list" where
  "K256 =
    [0x428A2F98, 0x71374491, 0xB5C0FBCF, 0xE9B5DBA5, 0x3956C25B, 0x59F111F1, 0x923F82A4, 0xAB1C5ED5,
     0xD807AA98, 0x12835B01, 0x243185BE, 0x550C7DC3, 0x72BE5D74, 0x80DEB1FE, 0x9BDC06A7, 0xC19BF174,
     0xE49B69C1, 0xEFBE4786, 0x0FC19DC6, 0x240CA1CC, 0x2DE92C6F, 0x4A7484AA, 0x5CB0A9DC, 0x76F988DA,
     0x983E5152, 0xA831C66D, 0xB00327C8, 0xBF597FC7, 0xC6E00BF3, 0xD5A79147, 0x06CA6351, 0x14292967,
     0x27B70A85, 0x2E1B2138, 0x4D2C6DFC, 0x53380D13, 0x650A7354, 0x766A0ABB, 0x81C2C92E, 0x92722C85,
     0xA2BFE8A1, 0xA81A664B, 0xC24B8B70, 0xC76C51A3, 0xD192E819, 0xD6990624, 0xF40E3585, 0x106AA070,
     0x19A4C116, 0x1E376C08, 0x2748774C, 0x34B0BCB5, 0x391C0CB3, 0x4ED8AA4A, 0x5B9CCA4F, 0x682E6FF3,
     0x748F82EE, 0x78A5636F, 0x84C87814, 0x8CC70208, 0x90BEFFFA, 0xA4506CEB, 0xBEF9A3F7, 0xC67178F2]"

definition H256 :: "w32 list" where
  "H256 =
    [0x6A09E667, 0xBB67AE85, 0x3C6EF372, 0xA54FF53A, 0x510E527F, 0x9B05688C, 0x1F83D9AB, 0x5BE0CD19]"

definition rotr :: "nat \<Rightarrow> w32 \<Rightarrow> w32" where
  "rotr n x = drop_bit n x OR push_bit (32 - n) x"

definition Ch :: "w32 \<Rightarrow> w32 \<Rightarrow> w32 \<Rightarrow> w32" where
  "Ch x y z = (x AND y) XOR (NOT x AND z)"

definition Maj :: "w32 \<Rightarrow> w32 \<Rightarrow> w32 \<Rightarrow> w32" where
  "Maj x y z = (x AND y) XOR (x AND z) XOR (y AND z)"

definition Sigma0 :: "w32 \<Rightarrow> w32" where
  "Sigma0 x = rotr 2 x XOR rotr 13 x XOR rotr 22 x"

definition Sigma1 :: "w32 \<Rightarrow> w32" where
  "Sigma1 x = rotr 6 x XOR rotr 11 x XOR rotr 25 x"

definition sigma0 :: "w32 \<Rightarrow> w32" where
  "sigma0 x = rotr 7 x XOR rotr 18 x XOR drop_bit 3 x"

definition sigma1 :: "w32 \<Rightarrow> w32" where
  "sigma1 x = rotr 17 x XOR rotr 19 x XOR drop_bit 10 x"

definition be64 :: "nat \<Rightarrow> bytes" where
  "be64 n = map (\<lambda>i. word_of_nat (n div 2 ^ (8 * (7 - i)))) [0..<8]"

definition sha_pad :: "bytes \<Rightarrow> bytes" where
  "sha_pad m =
     m @ [0x80] @ replicate ((119 - length m mod 64) mod 64) 0 @ be64 (8 * length m)"

fun be_words :: "bytes \<Rightarrow> w32 list" where
  "be_words (a # b # c # d # r) =
     (push_bit 24 (ucast a) OR push_bit 16 (ucast b) OR push_bit 8 (ucast c) OR ucast d)
       # be_words r"
| "be_words _ = []"

primrec schedule :: "nat \<Rightarrow> w32 list \<Rightarrow> w32 list" where
  "schedule 0 w = w"
| "schedule (Suc n) w =
     schedule n
       (w @ [sigma1 (w ! (length w - 2)) + w ! (length w - 7)
               + sigma0 (w ! (length w - 15)) + w ! (length w - 16)])"

record sha_state =
  va :: w32
  vb :: w32
  vc :: w32
  vd :: w32
  ve :: w32
  vf :: w32
  vg :: w32
  vh :: w32

definition sha_round :: "sha_state \<Rightarrow> w32 \<times> w32 \<Rightarrow> sha_state" where
  "sha_round s kw =
     (let t1 = vh s + Sigma1 (ve s) + Ch (ve s) (vf s) (vg s) + fst kw + snd kw;
          t2 = Sigma0 (va s) + Maj (va s) (vb s) (vc s)
      in \<lparr>va = t1 + t2, vb = va s, vc = vb s, vd = vc s,
          ve = vd s + t1, vf = ve s, vg = vf s, vh = vg s\<rparr>)"

definition state_of :: "w32 list \<Rightarrow> sha_state" where
  "state_of h = \<lparr>va = h ! 0, vb = h ! 1, vc = h ! 2, vd = h ! 3,
                 ve = h ! 4, vf = h ! 5, vg = h ! 6, vh = h ! 7\<rparr>"

definition words_of :: "sha_state \<Rightarrow> w32 list" where
  "words_of s = [va s, vb s, vc s, vd s, ve s, vf s, vg s, vh s]"

definition compress :: "w32 list \<Rightarrow> bytes \<Rightarrow> w32 list" where
  "compress h block =
     map2 (+) h
       (words_of (foldl sha_round (state_of h) (zip K256 (schedule 48 (be_words block)))))"

fun sha_blocks :: "nat \<Rightarrow> w32 list \<Rightarrow> bytes \<Rightarrow> w32 list" where
  "sha_blocks 0 h m = h"
| "sha_blocks (Suc n) h m = sha_blocks n (compress h (take 64 m)) (drop 64 m)"

definition be32 :: "w32 \<Rightarrow> bytes" where
  "be32 w = [ucast (drop_bit 24 w), ucast (drop_bit 16 w), ucast (drop_bit 8 w), ucast w]"

definition sha256 :: "bytes \<Rightarrow> bytes" where
  "sha256 m = concat (map be32 (sha_blocks (length (sha_pad m) div 64) H256 (sha_pad m)))"

section \<open>Strings of the platform\<close>

text \<open>
  \<^verbatim>\<open>Number.prototype.toString(16)\<close> on a non-negative integer: lower-case digits, most
  significant first, no leading zero. \<^verbatim>\<open>padStart\<close> repeats the filler in front of the
  string up to the target length. \<^verbatim>\<open>toUpperCase\<close> is called by the program on the
  output of \<open>toString16\<close> only; on ASCII code units the Unicode upper-casing maps
  \<^verbatim>\<open>a-z\<close> to \<^verbatim>\<open>A-Z\<close> and nothing else, which is what \<open>toUpperCase_ascii\<close> does.
\<close>

definition hex_digits :: jsstring where
  "hex_digits = str ''0123456789abcdef''"

fun toString16 :: "nat \<Rightarrow> jsstring" where
  "toString16 n =
     (if n < 16 then [hex_digits ! n] else toString16 (n div 16) @ [hex_digits ! (n mod 16)])"

declare toString16.simps [simp del]

definition dec_digits :: jsstring where
  "dec_digits = str ''0123456789''"

fun toString10 :: "nat \<Rightarrow> jsstring" where
  "toString10 n =
     (if n < 10 then [dec_digits ! n] else toString10 (n div 10) @ [dec_digits ! (n mod 10)])"

declare toString10.simps [simp del]

definition padStart :: "nat \<Rightarrow> jsstring \<Rightarrow> jsstring \<Rightarrow> jsstring" where
  "padStart n fill s =
     (if n \<le> length s \<or> fill = [] then s
      else take (n - length s) (concat (replicate (n - length s) fill)) @ s)"

definition upper_unit :: "16 word \<Rightarrow> 16 word" where
  "upper_unit u = (if 0x61 \<le> unat u \<and> unat u \<le> 0x7A then u - 0x20 else u)"

definition toUpperCase_ascii :: "jsstring \<Rightarrow> jsstring" where
  "toUpperCase_ascii s = map upper_unit s"

definition startsWith :: "jsstring \<Rightarrow> jsstring \<Rightarrow> bool" where
  "startsWith s p = (take (length p) s = p)"

fun includes_js :: "jsstring \<Rightarrow> jsstring \<Rightarrow> bool" where
  "includes_js [] p = (p = [])"
| "includes_js (c # s) p = (startsWith (c # s) p \<or> includes_js s p)"

text \<open>
  \<^verbatim>\<open>trim\<close> removes the ECMAScript white space and line terminator code units from both
  ends: TAB, LF, VT, FF, CR, SPACE, NBSP, U+1680, U+2000 to U+200A, U+2028, U+2029,
  U+202F, U+205F, U+3000 and U+FEFF.
\<close>

definition is_js_space :: "16 word \<Rightarrow> bool" where
  "is_js_space u =
     (let n = unat u in
      (9 \<le> n \<and> n \<le> 13) \<or> n = 0x20 \<or> n = 0xA0 \<or> n = 0x1680 \<or> (0x2000 \<le> n \<and> n \<le> 0x200A)
      \<or> n = 0x2028 \<or> n = 0x2029 \<or> n = 0x202F \<or> n = 0x205F \<or> n = 0x3000 \<or> n = 0xFEFF)"

definition trim :: "jsstring \<Rightarrow> jsstring" where
  "trim s = rev (dropWhile is_js_space (rev (dropWhile is_js_space s)))"

section \<open>Errors, and what the browser supplies\<close>

text \<open>
  A thrown value is an error object with a name and a message; \<^verbatim>\<open>new Error(m)\<close> has the
  name \<^verbatim>\<open>Error\<close>. A rejected promise is the left summand of the result.
\<close>

datatype js_error = JsError (err_name: jsstring) (err_message: jsstring)

definition new_Error :: "jsstring \<Rightarrow> js_error" where
  "new_Error m = JsError (str ''Error'') m"

record response =
  status :: nat
  statusText :: jsstring
  body :: bytes

text \<open>
  The browser parts that the program only calls are parameters of the model, collected
  in \<open>host\<close>:
  \<^item> \<open>http_get url\<close>: what \<^verbatim>\<open>fetch(url)\<close> settles to, a rejection or a response;
  \<^item> \<open>aes_gcm_open key iv aad tag_bits data\<close>: AES-GCM authenticated decryption of
    \<open>data\<close> (ciphertext followed by the tag), \<open>None\<close> when the tag does not verify;
  \<^item> \<open>dom_message name\<close>: the message text the browser puts in a \<^verbatim>\<open>DOMException\<close>;
  \<^item> \<open>unicode_lower left u right\<close>: the lower-casing of a code unit outside ASCII, in
    its context, by the Unicode tables.
  Console output is diagnostic only and is not part of the model. A response carries
  its body: reading it with \<^verbatim>\<open>arrayBuffer()\<close> is taken to succeed.
\<close>

record host =
  http_get :: "jsstring \<Rightarrow> js_error + response"
  aes_gcm_open :: "bytes \<Rightarrow> bytes \<Rightarrow> bytes \<Rightarrow> nat \<Rightarrow> bytes \<Rightarrow> bytes option"
  dom_message :: "jsstring \<Rightarrow> jsstring"
  unicode_lower :: "jsstring \<Rightarrow> 16 word \<Rightarrow> jsstring \<Rightarrow> jsstring"

definition DOMException :: "host \<Rightarrow> string \<Rightarrow> js_error" where
  "DOMException H n = JsError (str n) (dom_message H (str n))"

definition lower_unit :: "16 word \<Rightarrow> 16 word" where
  "lower_unit u = (if 0x41 \<le> unat u \<and> unat u \<le> 0x5A then u + 0x20 else u)"

fun toLowerCase_from :: "host \<Rightarrow> jsstring \<Rightarrow> jsstring \<Rightarrow> jsstring" where
  "toLowerCase_from H left [] = []"
| "toLowerCase_from H left (u # r) =
     (if unat u < 0x80 then [lower_unit u] else unicode_lower H left u r)
       @ toLowerCase_from H (left @ [u]) r"

definition toLowerCase :: "host \<Rightarrow> jsstring \<Rightarrow> jsstring" where
  "toLowerCase H s = toLowerCase_from H [] s"

section \<open>The platform's text decoder\<close>

text \<open>
  \<^verbatim>\<open>new TextDecoder('utf-8')\<close> is created without \<^verbatim>\<open>fatal\<close>, so \<^verbatim>\<open>decode\<close> uses the
  replacement error mode of the Encoding Standard. \<open>utf8_run\<close> is the standard's UTF-8
  decoder: \<open>cp\<close> is the code point under construction, \<open>need\<close> the continuation bytes
  still expected, \<open>lo\<close> and \<open>hi\<close> the bounds for the next byte. An item \<open>None\<close> is a
  decoding error; a byte that ends a sequence early is read again as a first byte.
\<close>

fun utf8_run :: "nat \<Rightarrow> nat \<Rightarrow> nat \<Rightarrow> nat \<Rightarrow> bytes \<Rightarrow> nat option list" where
  "utf8_run cp need lo hi [] = (if need = 0 then [] else [None])"
| "utf8_run cp need lo hi (b # bs) =
     (if need = 0 then
        (if unat b \<le> 0x7F then Some (unat b) # utf8_run 0 0 0x80 0xBF bs
         else if 0xC2 \<le> unat b \<and> unat b \<le> 0xDF then
           utf8_run (unat b mod 0x20) 1 0x80 0xBF bs
         else if 0xE0 \<le> unat b \<and> unat b \<le> 0xEF then
           utf8_run (unat b mod 0x10) 2
             (if unat b = 0xE0 then 0xA0 else 0x80) (if unat b = 0xED then 0x9F else 0xBF) bs
         else if 0xF0 \<le> unat b \<and> unat b \<le> 0xF4 then
           utf8_run (unat b mod 0x08) 3
             (if unat b = 0xF0 then 0x90 else 0x80) (if unat b = 0xF4 then 0x8F else 0xBF) bs
         else None # utf8_run 0 0 0x80 0xBF bs)
      else if unat b < lo \<or> hi < unat b then None # utf8_run 0 0 0x80 0xBF (b # bs)
      else if need = 1 then Some (cp * 0x40 + unat b mod 0x40) # utf8_run 0 0 0x80 0xBF bs
      else utf8_run (cp * 0x40 + unat b mod 0x40) (need - 1) 0x80 0xBF bs)"

definition utf8_items :: "bytes \<Rightarrow> nat option list" where
  "utf8_items bs = utf8_run 0 0 0x80 0xBF bs"

definition strip_bom :: "bytes \<Rightarrow> bytes" where
  "strip_bom bs = (if take 3 bs = [0xEF, 0xBB, 0xBF] then drop 3 bs else bs)"

definition utf16_units :: "nat \<Rightarrow> jsstring" where
  "utf16_units c =
     (if c < 0x10000 then [word_of_nat c]
      else [word_of_nat (0xD800 + (c - 0x10000) div 0x400),
            word_of_nat (0xDC00 + (c - 0x10000) mod 0x400)])"

definition replacement :: "nat option \<Rightarrow> nat" where
  "replacement x = (case x of None \<Rightarrow> 0xFFFD | Some c \<Rightarrow> c)"

definition TextDecoder_decode :: "bytes \<Rightarrow> jsstring" where
  "TextDecoder_decode bs =
     concat (map (\<lambda>x. utf16_units (replacement x)) (utf8_items (strip_bom bs)))"

text \<open>
  A byte sequence is valid UTF-8 when the decoder meets no error in it; with
  \<^verbatim>\<open>{fatal: true}\<close> the decoder would throw exactly on the other sequences.
\<close>

definition valid_utf8 :: "bytes \<Rightarrow> bool" where
  "valid_utf8 bs = list_all (\<lambda>x. x \<noteq> None) (utf8_items bs)"

section \<open>Web Cryptography: keys and key derivation\<close>

text \<open>
  A \<^verbatim>\<open>CryptoKey\<close> carries its algorithm, whether it may be exported, the operations
  it may be used for, and the key bytes (hidden from the script). \<open>importKey_raw_PBKDF2\<close>
  and \<open>deriveKey_PBKDF2_AES_GCM\<close> are the two calls of \<^verbatim>\<open>getKey\<close> with the checks the
  Web Cryptography API makes on them; the derived bytes are PBKDF2 (RFC 8018) over
  HMAC (RFC 2104) with the SHA-256 of this theory.
\<close>

datatype key_usage = Encrypt | Decrypt | DeriveBits | DeriveKey | WrapKey | UnwrapKey

datatype key_algorithm = PBKDF2 | AES_GCM nat

datatype hash_algorithm = SHA_256

record CryptoKey =
  algorithm :: key_algorithm
  extractable :: bool
  usages :: "key_usage list"
  key_data :: bytes

record Pbkdf2Params =
  salt :: bytes
  iterations :: nat
  hash :: hash_algorithm

definition hmac_sha256 :: "bytes \<Rightarrow> bytes \<Rightarrow> bytes" where
  "hmac_sha256 k m =
     (let k0 = (if 64 < length k then sha256 k else k);
          kp = k0 @ replicate (64 - length k0) 0
      in sha256 (map (\<lambda>b. b XOR 0x5C) kp @ sha256 (map (\<lambda>b. b XOR 0x36) kp @ m)))"

fun pbkdf2_iter :: "bytes \<Rightarrow> nat \<Rightarrow> bytes \<Rightarrow> bytes \<Rightarrow> bytes" where
  "pbkdf2_iter p 0 u t = t"
| "pbkdf2_iter p (Suc n) u t =
     pbkdf2_iter p n (hmac_sha256 p u) (map2 (XOR) t (hmac_sha256 p u))"

definition pbkdf2_block :: "bytes \<Rightarrow> bytes \<Rightarrow> nat \<Rightarrow> nat \<Rightarrow> bytes" where
  "pbkdf2_block p s c i =
     pbkdf2_iter p (c - 1) (hmac_sha256 p (s @ be32 (word_of_nat i)))
       (hmac_sha256 p (s @ be32 (word_of_nat i)))"

definition pbkdf2_hmac_sha256 :: "bytes \<Rightarrow> bytes \<Rightarrow> nat \<Rightarrow> nat \<Rightarrow> bytes" where
  "pbkdf2_hmac_sha256 p s c dk_len =
     take dk_len (concat (map (pbkdf2_block p s c) [1..<Suc ((dk_len + 31) div 32)]))"

definition importKey_raw_PBKDF2 ::
    "host \<Rightarrow> bytes \<Rightarrow> bool \<Rightarrow> key_usage list \<Rightarrow> js_error + CryptoKey" where
  "importKey_raw_PBKDF2 H data ext us =
     (if \<not> list_all (\<lambda>u. u = DeriveKey \<or> u = DeriveBits) us then
        Inl (DOMException H ''SyntaxError'')
      else if ext then Inl (DOMException H ''SyntaxError'')
      else if us = [] then Inl (DOMException H ''SyntaxError'')
      else Inr \<lparr>algorithm = PBKDF2, extractable = False, usages = us, key_data = data\<rparr>)"

definition deriveKey_PBKDF2_AES_GCM ::
    "host \<Rightarrow> Pbkdf2Params \<Rightarrow> CryptoKey \<Rightarrow> nat \<Rightarrow> bool \<Rightarrow> key_usage list
       \<Rightarrow> js_error + CryptoKey" where
  "deriveKey_PBKDF2_AES_GCM H params base_key len ext us =
     (if algorithm base_key \<noteq> PBKDF2 then Inl (DOMException H ''InvalidAccessError'')
      else if \<not> DeriveKey \<in> set (usages base_key) then
        Inl (DOMException H ''InvalidAccessError'')
      else if len \<noteq> 128 \<and> len \<noteq> 192 \<and> len \<noteq> 256 then
        Inl (DOMException H ''OperationError'')
      else if iterations params = 0 then Inl (DOMException H ''OperationError'')
      else if \<not> list_all (\<lambda>u. u = Encrypt \<or> u = Decrypt \<or> u = WrapKey \<or> u = UnwrapKey) us
        then Inl (DOMException H ''SyntaxError'')
      else if us = [] then Inl (DOMException H ''SyntaxError'')
      else Inr \<lparr>algorithm = AES_GCM len, extractable = ext, usages = us,
                key_data = (case hash params of SHA_256 \<Rightarrow>
                   pbkdf2_hmac_sha256 (key_data base_key) (salt params) (iterations params)
                     (len div 8))\<rparr>)"

section \<open>Web Cryptography: AES-GCM decryption\<close>

record AesGcmParams =
  iv :: bytes
  additionalData :: "bytes option"
  tagLength :: nat

definition subtle_decrypt_AES_GCM ::
    "host \<Rightarrow> AesGcmParams \<Rightarrow> CryptoKey \<Rightarrow> bytes \<Rightarrow> js_error + bytes" where
  "subtle_decrypt_AES_GCM H params key data =
     (if (case algorithm key of AES_GCM n \<Rightarrow> False | PBKDF2 \<Rightarrow> True) then
        Inl (DOMException H ''InvalidAccessError'')
      else if \<not> Decrypt \<in> set (usages key) then
        Inl (DOMException H ''InvalidAccessError'')
      else if \<not> tagLength params \<in> set [32, 64, 96, 104, 112, 120, 128] then
        Inl (DOMException H ''OperationError'')
      else if 8 * length data < tagLength params then Inl (DOMException H ''OperationError'')
      else (case aes_gcm_open H (key_data key) (iv params)
                   (case additionalData params of None \<Rightarrow> [] | Some a \<Rightarrow> a)
                   (tagLength params) data of
              None \<Rightarrow> Inl (DOMException H ''OperationError'')
            | Some plain \<Rightarrow> Inr plain))"

text \<open>
  \<^verbatim>\<open>ArrayBuffer.prototype.slice(begin, end)\<close>: a negative index counts from the end,
  both indices are clamped to the buffer, a missing \<^verbatim>\<open>end\<close> is the length.
\<close>

definition ArrayBuffer_slice :: "bytes \<Rightarrow> int \<Rightarrow> int option \<Rightarrow> bytes" where
  "ArrayBuffer_slice buf b e =
     (let len = int (length buf);
          first = (if b < 0 then max (len + b) 0 else min b len);
          final = (case e of None \<Rightarrow> len
                   | Some x \<Rightarrow> if x < 0 then max (len + x) 0 else min x len)
      in take (nat (max (final - first) 0)) (drop (nat first) buf))"

section \<open>The functions of \<^verbatim>\<open>crypto.js\<close>\<close>

text \<open>
  Every external call that a claim speaks of leaves an event in the trace that the
  function returns with its result: a network request, or a call of the cipher.
\<close>

datatype event =
    Fetch jsstring
  | Cipher AesGcmParams CryptoKey bytes

definition byte_hex :: "byte \<Rightarrow> jsstring" where
  "byte_hex b = toUpperCase_ascii (padStart 2 (str ''0'') (toString16 (unat b)))"

definition hex_join :: "bytes \<Rightarrow> jsstring" where
  "hex_join hashArray = concat (map byte_hex hashArray)"

definition getHash :: "jsstring \<Rightarrow> jsstring" where
  "getHash index = hex_join (sha256 (TextEncoder_encode index))"

definition getEncryptedFilename :: "jsstring \<Rightarrow> jsstring \<Rightarrow> jsstring" where
  "getEncryptedFilename index ident =
     (let combined = index @ str ''|'' @ ident;
          data = TextEncoder_encode combined
      in hex_join (sha256 data) @ str ''.enc'')"

definition getKey :: "host \<Rightarrow> jsstring \<Rightarrow> jsstring \<Rightarrow> js_error + CryptoKey" where
  "getKey H ident index =
     (case importKey_raw_PBKDF2 H (TextEncoder_encode ident) False [DeriveBits, DeriveKey] of
        Inl e \<Rightarrow> Inl e
      | Inr passwordKey \<Rightarrow>
          deriveKey_PBKDF2_AES_GCM H
            \<lparr>salt = TextEncoder_encode index, iterations = PBKDF2_ITERATIONS, hash = SHA_256\<rparr>
            passwordKey KEY_LENGTH False [Decrypt, Encrypt])"

text \<open>
  \<^verbatim>\<open>decrypt\<close>: \<open>decrypt_try\<close> is the body of its \<^verbatim>\<open>try\<close>, \<open>decrypt_catch\<close> the
  handler that replaces whatever was thrown by one of three errors.
\<close>

definition decrypt_try :: "host \<Rightarrow> CryptoKey \<Rightarrow> bytes \<Rightarrow> event list \<times> (js_error + jsstring)" where
  "decrypt_try H key encryptedData =
     (if length encryptedData < GCM_IV_LENGTH then
        ([], Inl (new_Error (str ''Invalid encrypted file: too short to contain IV'')))
      else
        (let iv0 = ArrayBuffer_slice encryptedData 0 (Some (int GCM_IV_LENGTH));
             ciphertext = ArrayBuffer_slice encryptedData (int GCM_IV_LENGTH) None;
             params = \<lparr>iv = iv0, additionalData = None, tagLength = GCM_TAG_LENGTH\<rparr>
         in ([Cipher params key ciphertext],
             (case subtle_decrypt_AES_GCM H params key ciphertext of
                Inl e \<Rightarrow> Inl e
              | Inr decryptedBuffer \<Rightarrow> Inr (TextDecoder_decode decryptedBuffer)))))"

definition decrypt_catch :: "js_error \<Rightarrow> js_error" where
  "decrypt_catch error =
     (if err_name error = str ''OperationError'' then
        new_Error (str ''Decryption failed: Invalid credentials or corrupted file. The authentication tag verification failed.'')
      else if includes_js (err_message error) (str ''too short'') then
        new_Error (str ''Invalid encrypted file format: File is too small.'')
      else new_Error (str ''Decryption failed: '' @ err_message error))"

definition decrypt :: "host \<Rightarrow> CryptoKey \<Rightarrow> bytes \<Rightarrow> event list \<times> (js_error + jsstring)" where
  "decrypt H key encryptedData =
     (case decrypt_try H key encryptedData of
        (tr, Inl error) \<Rightarrow> (tr, Inl (decrypt_catch error))
      | (tr, Inr decryptedText) \<Rightarrow> (tr, Inr decryptedText))"

definition fetchFile :: "host \<Rightarrow> jsstring \<Rightarrow> event list \<times> (js_error + bytes)" where
  "fetchFile H filename =
     (let url = str ''https://pasinduravimal.github.io/GPACalculator/files/'' @ filename
      in ([Fetch url],
          (case http_get H url of
             Inl e \<Rightarrow> Inl e
           | Inr resp \<Rightarrow>
               if \<not> (200 \<le> status resp \<and> status resp \<le> 299) then
                 Inl (new_Error (str ''Failed to fetch file: '' @ toString10 (status resp)
                                   @ str '' '' @ statusText resp))
               else Inr (body resp))))"

section \<open>The page and the two submit handlers\<close>

text \<open>
  The part of the page the handlers touch: the \<^verbatim>\<open>show\<close> class of the loading, error
  and content elements, the error text, the children of the content element, the
  submit button, the form's \<^verbatim>\<open>display\<close> and the container's \<^verbatim>\<open>expanded\<close> class.
  \<open>document_written\<close> is set when \<^verbatim>\<open>document.write\<close> has replaced the page.
\<close>

datatype node =
    BackButton
  | Iframe jsstring jsstring
  | Pre jsstring

record ui_state =
  loading_show :: bool
  error_show :: bool
  error_text :: jsstring
  content_show :: bool
  content_children :: "node list"
  submit_disabled :: bool
  form_hidden :: bool
  container_expanded :: bool
  document_written :: "jsstring option"

definition reset_ui :: "ui_state \<Rightarrow> ui_state" where
  "reset_ui ui =
     ui\<lparr>loading_show := True, error_show := False, content_show := False,
        content_children := [], submit_disabled := True\<rparr>"

definition is_html :: "host \<Rightarrow> jsstring \<Rightarrow> bool" where
  "is_html H decryptedContent =
     (startsWith (toLowerCase H (trim decryptedContent)) (str ''<!doctype'')
      \<or> startsWith (toLowerCase H (trim decryptedContent)) (str ''<html''))"

definition show_error :: "ui_state \<Rightarrow> js_error \<Rightarrow> ui_state" where
  "show_error ui error =
     ui\<lparr>error_text := str ''Error: '' @ err_message error, error_show := True\<rparr>"

definition finally_ui :: "ui_state \<Rightarrow> ui_state" where
  "finally_ui ui = ui\<lparr>loading_show := False, submit_disabled := False\<rparr>"

text \<open>The handler of \<^verbatim>\<open>crypto.js\<close>; \<open>main_try\<close> is the body of its \<^verbatim>\<open>try\<close>.\<close>

definition main_display :: "host \<Rightarrow> ui_state \<Rightarrow> jsstring \<Rightarrow> ui_state" where
  "main_display H ui decryptedContent =
     ui\<lparr>container_expanded := True, form_hidden := True,
        content_children :=
          content_children ui @ [BackButton] @
            [if is_html H decryptedContent
             then Iframe (str ''allow-same-origin allow-scripts allow-forms allow-modals'')
                    decryptedContent
             else Pre decryptedContent],
        content_show := True\<rparr>"

definition main_try ::
    "host \<Rightarrow> ui_state \<Rightarrow> jsstring \<Rightarrow> jsstring \<Rightarrow> ui_state \<times> event list \<times> js_error option" where
  "main_try H ui indexNumber ident =
     (let filename = getEncryptedFilename indexNumber ident in
      case fetchFile H filename of
        (tr1, Inl e) \<Rightarrow> (ui, tr1, Some e)
      | (tr1, Inr encryptedData) \<Rightarrow>
          (case getKey H ident indexNumber of
             Inl e \<Rightarrow> (ui, tr1, Some e)
           | Inr key \<Rightarrow>
               (case decrypt H key encryptedData of
                  (tr2, Inl e) \<Rightarrow> (ui, tr1 @ tr2, Some e)
                | (tr2, Inr decryptedContent) \<Rightarrow>
                    (main_display H ui decryptedContent, tr1 @ tr2, None))))"

definition submit_main ::
    "host \<Rightarrow> ui_state \<Rightarrow> jsstring \<Rightarrow> jsstring \<Rightarrow> ui_state \<times> event list" where
  "submit_main H ui indexValue idValue =
     (let indexNumber = trim indexValue;
          ident = trim idValue
      in case main_try H (reset_ui ui) indexNumber ident of
           (ui', tr, None) \<Rightarrow> (finally_ui ui', tr)
         | (ui', tr, Some error) \<Rightarrow> (finally_ui (show_error ui' error), tr))"

text \<open>The handler of \<^verbatim>\<open>crypto-alternative.js\<close>, option A.\<close>

definition alt_display :: "host \<Rightarrow> ui_state \<Rightarrow> jsstring \<Rightarrow> ui_state" where
  "alt_display H ui decryptedContent =
     (if is_html H decryptedContent then ui\<lparr>document_written := Some decryptedContent\<rparr>
      else ui\<lparr>container_expanded := True, form_hidden := True,
              content_children := content_children ui @ [BackButton] @ [Pre decryptedContent],
              content_show := True\<rparr>)"

definition alt_try ::
    "host \<Rightarrow> ui_state \<Rightarrow> jsstring \<Rightarrow> jsstring \<Rightarrow> ui_state \<times> event list \<times> js_error option" where
  "alt_try H ui indexNumber ident =
     (let hash = getHash indexNumber in
      case fetchFile H hash of
        (tr1, Inl e) \<Rightarrow> (ui, tr1, Some e)
      | (tr1, Inr encryptedData) \<Rightarrow>
          (case getKey H ident indexNumber of
             Inl e \<Rightarrow> (ui, tr1, Some e)
           | Inr key \<Rightarrow>
               (case decrypt H key encryptedData of
                  (tr2, Inl e) \<Rightarrow> (ui, tr1 @ tr2, Some e)
                | (tr2, Inr decryptedContent) \<Rightarrow>
                    (alt_display H ui decryptedContent, tr1 @ tr2, None))))"

definition submit_alt ::
    "host \<Rightarrow> ui_state \<Rightarrow> jsstring \<Rightarrow> jsstring \<Rightarrow> ui_state \<times> event list" where
  "submit_alt H ui indexValue idValue =
     (let indexNumber = trim indexValue;
          ident = trim idValue
      in case alt_try H (reset_ui ui) indexNumber ident of
           (ui', tr, None) \<Rightarrow> (finally_ui ui', tr)
         | (ui', tr, Some error) \<Rightarrow> (finally_ui (show_error ui' error), tr))"

section \<open>Concrete hosts and pages\<close>

text \<open>
  For evaluation at concrete inputs: a server that answers every request with one
  response, a cipher that opens every authenticated message to one plaintext or
  rejects every message, and a page with nothing shown.
\<close>

definition fixed_host :: "response \<Rightarrow> bytes option \<Rightarrow> host" where
  "fixed_host resp plain =
     \<lparr>http_get = (\<lambda>url. Inr resp), aes_gcm_open = (\<lambda>k n a t d. plain),
      dom_message = (\<lambda>n. []), unicode_lower = (\<lambda>b u a. [u])\<rparr>"

definition ok_response :: "bytes \<Rightarrow> response" where
  "ok_response bs = \<lparr>status = 200, statusText = str ''OK'', body = bs\<rparr>"

definition not_found :: response where
  "not_found = \<lparr>status = 404, statusText = str ''Not Found'', body = []\<rparr>"

definition blank_page :: ui_state where
  "blank_page =
     \<lparr>loading_show = False, error_show = False, error_text = [], content_show = False,
      content_children = [], submit_disabled = False, form_hidden = False,
      container_expanded = False, document_written = None\<rparr>"

definition test_key :: CryptoKey where
  "test_key = \<lparr>algorithm = AES_GCM 256, extractable = False, usages = [Decrypt, Encrypt],
               key_data = replicate 32 0\<rparr>"

section \<open>Names for what the claims speak of\<close>

text \<open>
  The two errors that \<^verbatim>\<open>decrypt\<close> throws by name of their cause. The specification
  calls them \<^verbatim>\<open>MalformedBlob\<close> and \<^verbatim>\<open>AuthenticationFailure\<close>; in the code they are
  \<^verbatim>\<open>Error\<close> objects told apart by their message.
\<close>

definition MalformedBlob :: js_error where
  "MalformedBlob = new_Error (str ''Invalid encrypted file format: File is too small.'')"

definition AuthenticationFailure :: js_error where
  "AuthenticationFailure =
     new_Error (str ''Decryption failed: Invalid credentials or corrupted file. The authentication tag verification failed.'')"

definition files_url :: jsstring where
  "files_url = str ''https://pasinduravimal.github.io/GPACalculator/files/''"

text \<open>
  Upper-case hexadecimal as the specification words it: two digits for every byte,
  high nibble first, from \<^verbatim>\<open>0123456789ABCDEF\<close>.
\<close>

definition HEX_DIGITS :: jsstring where
  "HEX_DIGITS = str ''0123456789ABCDEF''"

definition hex_upper :: "bytes \<Rightarrow> jsstring" where
  "hex_upper bs =
     concat (map (\<lambda>b. [HEX_DIGITS ! (unat b div 16), HEX_DIGITS ! (unat b mod 16)]) bs)"

text \<open>A string is well formed when every surrogate code unit is part of a pair.\<close>

fun well_formed :: "jsstring \<Rightarrow> bool" where
  "well_formed [] = True"
| "well_formed [u] = (\<not> is_high_surrogate u \<and> \<not> is_low_surrogate u)"
| "well_formed (u # v # r) =
     (if is_high_surrogate u then is_low_surrogate v \<and> well_formed r
      else \<not> is_low_surrogate u \<and> well_formed (v # r))"

text \<open>
  The authentication tag of a blob does not verify under a key: the part after the
  nonce is shorter than a tag (16 bytes), or the cipher rejects it.
\<close>

definition tag_rejected :: "host \<Rightarrow> CryptoKey \<Rightarrow> bytes \<Rightarrow> bool" where
  "tag_rejected H key blob =
     (length blob < 28
      \<or> aes_gcm_open H (key_data key) (take 12 blob) [] 128 (drop 12 blob) = None)"

text \<open>The key that \<^verbatim>\<open>getKey(id, index)\<close> derives.\<close>

definition derived_key :: "jsstring \<Rightarrow> jsstring \<Rightarrow> CryptoKey" where
  "derived_key ident index =
     \<lparr>algorithm = AES_GCM 256, extractable = False, usages = [Decrypt, Encrypt],
      key_data = pbkdf2_hmac_sha256 (TextEncoder_encode ident) (TextEncoder_encode index)
                   100000 32\<rparr>"

text \<open>The sandbox attribute the handler of \<^verbatim>\<open>crypto.js\<close> gives its frame.\<close>

definition frame_sandbox :: jsstring where
  "frame_sandbox = str ''allow-same-origin allow-scripts allow-forms allow-modals''"

text \<open>The page after a run that failed with an error: reset, error shown, released.\<close>

definition failure_page :: "ui_state \<Rightarrow> js_error \<Rightarrow> ui_state" where
  "failure_page ui e = finally_ui (show_error (reset_ui ui) e)"

text \<open>Unicode scalar values: code points that are not surrogates.\<close>

definition is_scalar :: "nat \<Rightarrow> bool" where
  "is_scalar c = (c < 0x110000 \<and> \<not> (0xD800 \<le> c \<and> c \<le> 0xDFFF))"

section \<open>Short blobs\<close>

lemma str_simps: "str [] = []" "str (c # cs) = word_of_nat (of_char c) # str cs"
  by (simp_all add: str_def)

lemma catch_too_short:
  "decrypt_catch (new_Error (str ''Invalid encrypted file: too short to contain IV''))
     = MalformedBlob"
  by (simp add: decrypt_catch_def new_Error_def MalformedBlob_def startsWith_def str_simps)

text \<open>
  C2. A blob of fewer than 12 bytes makes \<^verbatim>\<open>decrypt\<close> throw the error for a malformed
  blob, and the trace of external calls is empty: the cipher is not called. Hence a
  trace with a cipher call comes from a blob of at least 12 bytes.
\<close>

theorem decrypt_short_blob:
  assumes "length blob < 12"
  shows "decrypt H key blob = ([], Inl MalformedBlob)"
  using assms
  by (simp add: decrypt_def decrypt_try_def GCM_IV_LENGTH_def catch_too_short)

theorem decrypt_short_blob_witness:
  "length (replicate 11 (7 :: byte)) < 12
   \<and> decrypt (fixed_host (ok_response []) None) test_key (replicate 11 7)
       = ([], Inl MalformedBlob)"
  using decrypt_short_blob [of "replicate 11 7" "fixed_host (ok_response []) None" test_key]
  by simp

lemma slice_head: "n \<le> length b \<Longrightarrow> ArrayBuffer_slice b 0 (Some (int n)) = take n b"
  by (simp add: ArrayBuffer_slice_def Let_def min_def)

lemma slice_tail: "ArrayBuffer_slice b (int n) None = drop n b"
  by (simp add: ArrayBuffer_slice_def Let_def min_def max_def)

lemma decrypt_long:
  assumes "12 \<le> length blob"
  shows "decrypt H key blob =
    ([Cipher \<lparr>iv = take 12 blob, additionalData = None, tagLength = 128\<rparr> key (drop 12 blob)],
     (case subtle_decrypt_AES_GCM H \<lparr>iv = take 12 blob, additionalData = None, tagLength = 128\<rparr>
             key (drop 12 blob) of
        Inl e \<Rightarrow> Inl (decrypt_catch e)
      | Inr buf \<Rightarrow> Inr (TextDecoder_decode buf)))"
proof -
  have a: "ArrayBuffer_slice blob 0 (Some (int GCM_IV_LENGTH)) = take 12 blob"
    using assms slice_head [of 12 blob] by (simp add: GCM_IV_LENGTH_def)
  have b: "ArrayBuffer_slice blob (int GCM_IV_LENGTH) None = drop 12 blob"
    using slice_tail [of blob 12] by (simp add: GCM_IV_LENGTH_def)
  have c: "\<not> length blob < GCM_IV_LENGTH"
    using assms by (simp add: GCM_IV_LENGTH_def)
  show ?thesis
    unfolding decrypt_def decrypt_try_def
    by (simp only: c a b if_False Let_def GCM_TAG_LENGTH_def split: sum.split prod.split)
       (simp split: sum.split)
qed

lemma error_kinds_differ: "MalformedBlob \<noteq> AuthenticationFailure"
  by (simp add: MalformedBlob_def AuthenticationFailure_def new_Error_def str_simps)

lemma catch_OperationError: "decrypt_catch (DOMException H ''OperationError'') = AuthenticationFailure"
  by (simp add: decrypt_catch_def DOMException_def AuthenticationFailure_def)

lemma subtle_decrypt_valid_key:
  assumes "algorithm key = AES_GCM n" "Decrypt \<in> set (usages key)"
  shows "subtle_decrypt_AES_GCM H \<lparr>iv = nonce, additionalData = None, tagLength = 128\<rparr> key data =
    (if length data < 16 then Inl (DOMException H ''OperationError'')
     else case aes_gcm_open H (key_data key) nonce [] 128 data of
            None \<Rightarrow> Inl (DOMException H ''OperationError'')
          | Some plain \<Rightarrow> Inr plain)"
  using assms by (auto simp add: subtle_decrypt_AES_GCM_def split: option.split)

section \<open>Nonce, ciphertext and the cipher call\<close>

text \<open>
  C3. For a blob of at least 12 bytes \<^verbatim>\<open>decrypt\<close> calls the cipher once: the nonce is
  the first 12 bytes of the blob, the data handed over is everything after them (the
  tag is not cut off), the tag length is 128 bits and there is no associated data. The
  result of \<^verbatim>\<open>decrypt\<close> is what that call gives.
\<close>

theorem decrypt_nonce_and_ciphertext:
  assumes "12 \<le> length blob"
  shows "fst (decrypt H key blob) =
           [Cipher \<lparr>iv = take 12 blob, additionalData = None, tagLength = 128\<rparr> key (drop 12 blob)]
         \<and> length (take 12 blob) = 12
         \<and> take 12 blob @ drop 12 blob = blob
         \<and> snd (decrypt H key blob) =
             (case subtle_decrypt_AES_GCM H
                     \<lparr>iv = take 12 blob, additionalData = None, tagLength = 128\<rparr> key (drop 12 blob) of
                Inl e \<Rightarrow> Inl (decrypt_catch e)
              | Inr buf \<Rightarrow> Inr (TextDecoder_decode buf))"
  using assms by (simp add: decrypt_long)

theorem decrypt_nonce_and_ciphertext_witness:
  "12 \<le> length (replicate 28 (7 :: byte))
   \<and> fst (decrypt (fixed_host (ok_response []) None) test_key (replicate 28 7)) =
       [Cipher \<lparr>iv = replicate 12 7, additionalData = None, tagLength = 128\<rparr> test_key
          (replicate 16 7)]"
  using decrypt_nonce_and_ciphertext
          [of "replicate 28 7" "fixed_host (ok_response []) None" test_key]
  by simp

section \<open>Authentication failure\<close>

text \<open>
  C6. When the tag of a blob of at least 12 bytes does not verify under a decryption
  key, \<^verbatim>\<open>decrypt\<close> throws the one authentication error. It is the same error value for
  any two such failures, whatever key, blob or browser they come from: a wrong key and
  a damaged blob cannot be told apart by the caller.
\<close>

theorem decrypt_authentication_failure:
  assumes "12 \<le> length blob" "algorithm key = AES_GCM n" "Decrypt \<in> set (usages key)"
    and "tag_rejected H key blob"
    and "12 \<le> length blob'" "algorithm key' = AES_GCM n'" "Decrypt \<in> set (usages key')"
    and "tag_rejected H' key' blob'"
  shows "snd (decrypt H key blob) = Inl AuthenticationFailure
         \<and> snd (decrypt H' key' blob') = snd (decrypt H key blob)"
proof -
  have "snd (decrypt G k b) = Inl AuthenticationFailure"
    if "12 \<le> length b" "algorithm k = AES_GCM m" "Decrypt \<in> set (usages k)" "tag_rejected G k b"
    for G k b m
  proof (cases "length b < 28")
    case True
    then have "length (drop 12 b) < 16" by simp
    then show ?thesis
      using that(1-3)
      by (simp only: decrypt_long subtle_decrypt_valid_key snd_conv if_True sum.case
            catch_OperationError)
  next
    case False
    then have "aes_gcm_open G (key_data k) (take 12 b) [] 128 (drop 12 b) = None"
      using that by (simp add: tag_rejected_def)
    then show ?thesis
      using that(1-3)
      by (simp add: decrypt_long subtle_decrypt_valid_key catch_OperationError)
  qed
  then show ?thesis using assms by simp
qed

lemma test_key_simps: "algorithm test_key = AES_GCM 256" "Decrypt \<in> set (usages test_key)"
  "key_data test_key = replicate 32 0"
  by (simp_all add: test_key_def)

lemma fixed_host_simps:
  "http_get (fixed_host r p) u = Inr r" "aes_gcm_open (fixed_host r p) k i a t d = p"
  "dom_message (fixed_host r p) n = []" "unicode_lower (fixed_host r p) l c x = [c]"
  by (simp_all add: fixed_host_def)

theorem decrypt_authentication_failure_witness:
  "snd (decrypt (fixed_host (ok_response []) None) test_key (replicate 40 7))
     = Inl AuthenticationFailure
   \<and> snd (decrypt (fixed_host (ok_response []) None) test_key (replicate 12 3))
     = snd (decrypt (fixed_host (ok_response []) None) test_key (replicate 40 7))"
  using decrypt_authentication_failure
     [of "replicate 40 7" test_key 256 "fixed_host (ok_response []) None"
         "replicate 12 3" test_key 256 "fixed_host (ok_response []) None"]
  by (simp add: test_key_simps tag_rejected_def fixed_host_simps)

section \<open>Decoding the plaintext\<close>

lemma utf8_items_bom: "utf8_items (0xEF # 0xBB # 0xBF # bs) = Some 0xFEFF # utf8_items bs"
  by (simp add: utf8_items_def)

lemma valid_utf8_strip_bom: "valid_utf8 (strip_bom bs) = valid_utf8 bs"
proof (cases "take 3 bs = [0xEF, 0xBB, 0xBF]")
  case True
  then have "bs = 0xEF # 0xBB # 0xBF # drop 3 bs"
    by (metis append_Cons append_Nil append_take_drop_id)
  then have "utf8_items bs = Some 0xFEFF # utf8_items (drop 3 bs)"
    using utf8_items_bom [of "drop 3 bs"] by simp
  then show ?thesis using True by (simp add: strip_bom_def valid_utf8_def)
next
  case False
  then show ?thesis by (simp add: strip_bom_def)
qed

lemma invalid_gives_replacement:
  assumes "\<not> valid_utf8 bs"
  shows "0xFFFD \<in> set (TextDecoder_decode bs)"
proof -
  have "\<not> valid_utf8 (strip_bom bs)" using assms by (simp add: valid_utf8_strip_bom)
  then have "None \<in> set (utf8_items (strip_bom bs))"
    by (auto simp add: valid_utf8_def list_all_iff)
  moreover have "utf16_units (replacement None) = [0xFFFD]"
    by (simp add: utf16_units_def replacement_def)
  ultimately show ?thesis
    by (force simp add: TextDecoder_decode_def)
qed

text \<open>
  C5, as the code has it. When the cipher accepts the blob, \<^verbatim>\<open>decrypt\<close> returns the
  text that the decoder makes of the plaintext bytes, for every byte sequence; bytes
  that are not valid UTF-8 do not raise an error, they appear as U+FFFD in the text.
\<close>

theorem decrypt_decodes_with_replacement:
  assumes "12 \<le> length blob"
    and "subtle_decrypt_AES_GCM H \<lparr>iv = take 12 blob, additionalData = None, tagLength = 128\<rparr>
           key (drop 12 blob) = Inr plain"
  shows "snd (decrypt H key blob) = Inr (TextDecoder_decode plain)
         \<and> (\<not> valid_utf8 plain \<longrightarrow> 0xFFFD \<in> set (TextDecoder_decode plain))"
  using assms by (simp add: decrypt_long invalid_gives_replacement)

text \<open>
  The claim C5 as stated fails: the byte 0xFF is not valid UTF-8, and \<^verbatim>\<open>decrypt\<close>
  returns the one-character string U+FFFD for it.
\<close>

theorem invalid_utf8_is_returned_as_text:
  "\<not> valid_utf8 [0xFF]
   \<and> snd (decrypt (fixed_host (ok_response []) (Some [0xFF])) test_key (replicate 28 7))
       = Inr [0xFFFD]"
  by (simp add: decrypt_long subtle_decrypt_valid_key test_key_simps fixed_host_simps
        valid_utf8_def utf8_items_def TextDecoder_decode_def strip_bom_def utf16_units_def
        replacement_def)

theorem decrypt_decodes_with_replacement_witness:
  "snd (decrypt (fixed_host (ok_response []) (Some [0xFF])) test_key (replicate 28 7))
     = Inr (TextDecoder_decode [0xFF])
   \<and> \<not> valid_utf8 [0xFF] \<and> 0xFFFD \<in> set (TextDecoder_decode [0xFF])"
  using decrypt_decodes_with_replacement
     [of "replicate 28 7" "fixed_host (ok_response []) (Some [0xFF])" test_key "[0xFF]"]
  by (simp add: subtle_decrypt_valid_key test_key_simps fixed_host_simps valid_utf8_def
        utf8_items_def)

section \<open>Key derivation\<close>

lemma length_compress: "length (compress h b) = min (length h) 8"
  by (simp add: compress_def words_of_def)

lemma length_sha_blocks: "length h = 8 \<Longrightarrow> length (sha_blocks n h m) = 8"
  by (induction n arbitrary: h m) (simp_all add: length_compress)

lemma length_concat_be32: "length (concat (map be32 ws)) = 4 * length ws"
  by (induction ws) (simp_all add: be32_def)

lemma length_sha256: "length (sha256 m) = 32"
  by (simp add: sha256_def length_concat_be32 length_sha_blocks H256_def)

lemma length_hmac_sha256: "length (hmac_sha256 k m) = 32"
  by (simp add: hmac_sha256_def Let_def length_sha256)

lemma length_pbkdf2_iter:
  "length u = 32 \<Longrightarrow> length t = 32 \<Longrightarrow> length (pbkdf2_iter p n u t) = 32"
  by (induction n arbitrary: u t) (simp_all add: length_hmac_sha256)

lemma length_pbkdf2_block: "length (pbkdf2_block p s c i) = 32"
  by (simp add: pbkdf2_block_def length_pbkdf2_iter length_hmac_sha256)

lemma pbkdf2_one_block: "pbkdf2_hmac_sha256 p s c 32 = pbkdf2_block p s c 1"
  by (simp add: pbkdf2_hmac_sha256_def length_pbkdf2_block)

lemma getKey_ok:
  "getKey H ident index =
     Inr \<lparr>algorithm = AES_GCM 256, extractable = False, usages = [Decrypt, Encrypt],
          key_data = pbkdf2_hmac_sha256 (TextEncoder_encode ident) (TextEncoder_encode index)
                       100000 32\<rparr>"
  by (simp add: getKey_def importKey_raw_PBKDF2_def deriveKey_PBKDF2_AES_GCM_def
        PBKDF2_ITERATIONS_def KEY_LENGTH_def)

text \<open>
  C4. \<^verbatim>\<open>getKey\<close> always succeeds. The key it returns is an AES-GCM key of 256 bits
  that cannot be exported and may only encrypt and decrypt; its bytes are PBKDF2 with
  HMAC-SHA-256, the bytes of the id as password, the bytes of the index as salt and
  100,000 iterations: one output block, that is the first HMAC over salt and block
  number 1 followed by 99,999 further HMACs under the password, all combined by XOR.
\<close>

theorem getKey_derivation:
  "getKey H ident index =
     Inr \<lparr>algorithm = AES_GCM 256, extractable = False, usages = [Decrypt, Encrypt],
          key_data = pbkdf2_hmac_sha256 (TextEncoder_encode ident) (TextEncoder_encode index)
                       100000 32\<rparr>
   \<and> 8 * length (pbkdf2_hmac_sha256 (TextEncoder_encode ident) (TextEncoder_encode index)
                    100000 32) = 256
   \<and> pbkdf2_hmac_sha256 (TextEncoder_encode ident) (TextEncoder_encode index) 100000 32
       = pbkdf2_iter (TextEncoder_encode ident) 99999
           (hmac_sha256 (TextEncoder_encode ident) (TextEncoder_encode index @ [0, 0, 0, 1]))
           (hmac_sha256 (TextEncoder_encode ident) (TextEncoder_encode index @ [0, 0, 0, 1]))"
  by (simp add: getKey_ok pbkdf2_one_block pbkdf2_block_def be32_def length_pbkdf2_iter
        length_hmac_sha256)

section \<open>The paths through the handlers\<close>

lemma getKey_derived: "getKey H ident index = Inr (derived_key ident index)"
  by (simp add: getKey_ok derived_key_def)

lemma fetchFile_trace: "fst (fetchFile H f) = [Fetch (files_url @ f)]"
  by (simp add: fetchFile_def files_url_def Let_def)

lemma main_try_fetch_fails:
  assumes "snd (fetchFile H (getEncryptedFilename i d)) = Inl e"
  shows "main_try H ui i d = (ui, [Fetch (files_url @ getEncryptedFilename i d)], Some e)"
proof -
  have "fetchFile H (getEncryptedFilename i d)
          = ([Fetch (files_url @ getEncryptedFilename i d)], Inl e)"
    using assms fetchFile_trace [of H "getEncryptedFilename i d"]
    by (metis prod.collapse)
  then show ?thesis by (simp add: main_try_def)
qed

lemma main_try_fetched:
  assumes "snd (fetchFile H (getEncryptedFilename i d)) = Inr blob"
  shows "main_try H ui i d =
    (case snd (decrypt H (derived_key d i) blob) of
       Inl e \<Rightarrow> (ui, Fetch (files_url @ getEncryptedFilename i d)
                      # fst (decrypt H (derived_key d i) blob), Some e)
     | Inr text \<Rightarrow> (main_display H ui text, Fetch (files_url @ getEncryptedFilename i d)
                      # fst (decrypt H (derived_key d i) blob), None))"
proof -
  have "fetchFile H (getEncryptedFilename i d)
          = ([Fetch (files_url @ getEncryptedFilename i d)], Inr blob)"
    using assms fetchFile_trace [of H "getEncryptedFilename i d"]
    by (metis prod.collapse)
  then show ?thesis
    by (simp add: main_try_def getKey_derived split: prod.split sum.split)
qed

lemma alt_try_fetch_fails:
  assumes "snd (fetchFile H (getHash i)) = Inl e"
  shows "alt_try H ui i d = (ui, [Fetch (files_url @ getHash i)], Some e)"
proof -
  have "fetchFile H (getHash i) = ([Fetch (files_url @ getHash i)], Inl e)"
    using assms fetchFile_trace [of H "getHash i"]
    by (metis prod.collapse)
  then show ?thesis by (simp add: alt_try_def)
qed

lemma alt_try_fetched:
  assumes "snd (fetchFile H (getHash i)) = Inr blob"
  shows "alt_try H ui i d =
    (case snd (decrypt H (derived_key d i) blob) of
       Inl e \<Rightarrow> (ui, Fetch (files_url @ getHash i)
                      # fst (decrypt H (derived_key d i) blob), Some e)
     | Inr text \<Rightarrow> (alt_display H ui text, Fetch (files_url @ getHash i)
                      # fst (decrypt H (derived_key d i) blob), None))"
proof -
  have "fetchFile H (getHash i) = ([Fetch (files_url @ getHash i)], Inr blob)"
    using assms fetchFile_trace [of H "getHash i"]
    by (metis prod.collapse)
  then show ?thesis
    by (simp add: alt_try_def getKey_derived split: prod.split sum.split)
qed

lemma submit_main_fetch_fails:
  assumes "snd (fetchFile H (getEncryptedFilename (trim i) (trim d))) = Inl e"
  shows "submit_main H ui i d =
    (failure_page ui e, [Fetch (files_url @ getEncryptedFilename (trim i) (trim d))])"
  by (simp add: submit_main_def main_try_fetch_fails [OF assms] failure_page_def)

lemma submit_main_decrypt_fails:
  assumes "snd (fetchFile H (getEncryptedFilename (trim i) (trim d))) = Inr blob"
    and "snd (decrypt H (derived_key (trim d) (trim i)) blob) = Inl e"
  shows "submit_main H ui i d =
    (failure_page ui e, Fetch (files_url @ getEncryptedFilename (trim i) (trim d))
                          # fst (decrypt H (derived_key (trim d) (trim i)) blob))"
  by (simp add: submit_main_def main_try_fetched [OF assms(1)] assms(2) failure_page_def)

lemma submit_main_success:
  assumes "snd (fetchFile H (getEncryptedFilename (trim i) (trim d))) = Inr blob"
    and "snd (decrypt H (derived_key (trim d) (trim i)) blob) = Inr text"
  shows "submit_main H ui i d =
    (finally_ui (main_display H (reset_ui ui) text),
     Fetch (files_url @ getEncryptedFilename (trim i) (trim d))
       # fst (decrypt H (derived_key (trim d) (trim i)) blob))"
  by (simp add: submit_main_def main_try_fetched [OF assms(1)] assms(2))

lemma submit_alt_success:
  assumes "snd (fetchFile H (getHash (trim i))) = Inr blob"
    and "snd (decrypt H (derived_key (trim d) (trim i)) blob) = Inr text"
  shows "submit_alt H ui i d =
    (finally_ui (alt_display H (reset_ui ui) text),
     Fetch (files_url @ getHash (trim i))
       # fst (decrypt H (derived_key (trim d) (trim i)) blob))"
  by (simp add: submit_alt_def alt_try_fetched [OF assms(1)] assms(2))

lemma decrypt_trace_length: "length (fst (decrypt H key blob)) \<le> 1"
  by (simp add: decrypt_def decrypt_try_def Let_def split: prod.split sum.split)

lemma submit_main_releases:
  "\<not> loading_show (fst (submit_main H ui i d)) \<and> \<not> submit_disabled (fst (submit_main H ui i d))"
  by (simp add: submit_main_def finally_ui_def split: prod.split option.split)

lemma submit_alt_releases:
  "\<not> loading_show (fst (submit_alt H ui i d)) \<and> \<not> submit_disabled (fst (submit_alt H ui i d))"
  by (simp add: submit_alt_def finally_ui_def split: prod.split option.split)

lemma failure_page_fields:
  "content_children (failure_page ui e) = []" "\<not> content_show (failure_page ui e)"
  "error_show (failure_page ui e)" "error_text (failure_page ui e) = str ''Error: '' @ err_message e"
  "\<not> loading_show (failure_page ui e)" "\<not> submit_disabled (failure_page ui e)"
  "document_written (failure_page ui e) = document_written ui"
  by (simp_all add: failure_page_def finally_ui_def show_error_def reset_ui_def)

lemma submit_main_cases:
  "submit_main H ui i d =
     (case snd (fetchFile H (getEncryptedFilename (trim i) (trim d))) of
        Inl e \<Rightarrow>
          (failure_page ui e, [Fetch (files_url @ getEncryptedFilename (trim i) (trim d))])
      | Inr blob \<Rightarrow>
          (case snd (decrypt H (derived_key (trim d) (trim i)) blob) of
             Inl e \<Rightarrow>
               (failure_page ui e,
                Fetch (files_url @ getEncryptedFilename (trim i) (trim d))
                  # fst (decrypt H (derived_key (trim d) (trim i)) blob))
           | Inr text \<Rightarrow>
               (finally_ui (main_display H (reset_ui ui) text),
                Fetch (files_url @ getEncryptedFilename (trim i) (trim d))
                  # fst (decrypt H (derived_key (trim d) (trim i)) blob))))"
proof (cases "snd (fetchFile H (getEncryptedFilename (trim i) (trim d)))")
  case (Inl e)
  then show ?thesis by (simp add: submit_main_fetch_fails)
next
  case (Inr blob)
  show ?thesis
  proof (cases "snd (decrypt H (derived_key (trim d) (trim i)) blob)")
    case (Inl e)
    with Inr show ?thesis by (simp add: submit_main_decrypt_fails)
  next
    case (Inr content)
    with \<open>snd (fetchFile H (getEncryptedFilename (trim i) (trim d))) = Inr blob\<close>
    show ?thesis by (simp add: submit_main_success)
  qed
qed

text \<open>
  C9. A run of the handler of \<^verbatim>\<open>crypto.js\<close> is decided by its first failing step.
  If the fetch fails, the only external call made is that one request and the page is
  the failure page for the error of the fetch; if the fetch succeeds and \<^verbatim>\<open>decrypt\<close>
  fails, the calls are the request and what \<^verbatim>\<open>decrypt\<close> did (at most one cipher call)
  and the page is the failure page for the error of \<^verbatim>\<open>decrypt\<close>; no step is run a
  second time. The failure page shows \<^verbatim>\<open>Error: \<close> followed by the message of that
  error, its content element is empty and hidden, and nothing was written to the
  document. On every path the loading indicator is hidden and the submit button
  enabled at the end.
\<close>

theorem submit_main_outcome:
  "submit_main H ui i d =
     (case snd (fetchFile H (getEncryptedFilename (trim i) (trim d))) of
        Inl e \<Rightarrow>
          (failure_page ui e, [Fetch (files_url @ getEncryptedFilename (trim i) (trim d))])
      | Inr blob \<Rightarrow>
          (case snd (decrypt H (derived_key (trim d) (trim i)) blob) of
             Inl e \<Rightarrow>
               (failure_page ui e,
                Fetch (files_url @ getEncryptedFilename (trim i) (trim d))
                  # fst (decrypt H (derived_key (trim d) (trim i)) blob))
           | Inr text \<Rightarrow>
               (finally_ui (main_display H (reset_ui ui) text),
                Fetch (files_url @ getEncryptedFilename (trim i) (trim d))
                  # fst (decrypt H (derived_key (trim d) (trim i)) blob))))
   \<and> length (fst (decrypt H key blob)) \<le> 1
   \<and> content_children (failure_page ui e) = []
   \<and> \<not> content_show (failure_page ui e)
   \<and> document_written (failure_page ui e) = document_written ui
   \<and> error_show (failure_page ui e)
   \<and> error_text (failure_page ui e) = str ''Error: '' @ err_message e
   \<and> \<not> loading_show (fst (submit_main H ui i d))
   \<and> \<not> submit_disabled (fst (submit_main H ui i d))"
  using submit_main_cases [of H ui i d] submit_main_releases [of H ui i d]
    decrypt_trace_length [of H key blob]
  by (simp only: failure_page_fields simp_thms)

text \<open>An example: the server answers 404.\<close>

lemma fetchFile_not_found:
  "snd (fetchFile (fixed_host not_found p) f)
     = Inl (new_Error (str ''Failed to fetch file: 404 Not Found''))"
  by (simp add: fetchFile_def fixed_host_simps not_found_def Let_def toString10.simps
        dec_digits_def str_simps)

lemma submit_main_not_found:
  "submit_main (fixed_host not_found None) blank_page (str ''2020123'') (str ''987654321'')
     = (blank_page\<lparr>error_show := True,
                     error_text := str ''Error: Failed to fetch file: 404 Not Found''\<rparr>,
        [Fetch (files_url @ getEncryptedFilename (trim (str ''2020123''))
                              (trim (str ''987654321'')))])"
  by (simp add: submit_main_cases fetchFile_not_found failure_page_def finally_ui_def
        show_error_def reset_ui_def blank_page_def new_Error_def str_simps)

section \<open>Classification of the decrypted text\<close>

lemma is_html_example: "is_html H (str ''  <!DOCTYPE html><p>hi</p>'')"
  by (simp add: is_html_def trim_def str_simps is_js_space_def toLowerCase_def lower_unit_def
        startsWith_def)

lemma is_html_example_text: "\<not> is_html H (str ''plain result text'')"
  by (simp add: is_html_def trim_def str_simps is_js_space_def toLowerCase_def lower_unit_def
        startsWith_def)

lemma main_display_children:
  "content_children (finally_ui (main_display H (reset_ui ui) text)) =
     [BackButton, if is_html H text then Iframe frame_sandbox text else Pre text]"
  by (simp add: finally_ui_def main_display_def reset_ui_def frame_sandbox_def)

lemma alt_display_children:
  "content_children (finally_ui (alt_display H (reset_ui ui) text)) =
     (if is_html H text then [] else [BackButton, Pre text])"
  "document_written (finally_ui (alt_display H (reset_ui ui) text)) =
     (if is_html H text then Some text else document_written ui)"
  by (simp_all add: finally_ui_def alt_display_def reset_ui_def)

text \<open>
  C7. When the blob is fetched and decrypted to a text, both handlers treat the text as
  markup exactly when the text, trimmed and lower-cased, starts with \<^verbatim>\<open><!doctype\<close>
  or \<^verbatim>\<open><html\<close>: the handler of \<^verbatim>\<open>crypto.js\<close> then writes it into a sandboxed
  frame, the alternative handler writes it over the document; every other text is
  shown as plain text in a \<^verbatim>\<open>pre\<close> element. The two examples of the specification
  are classified as it says.
\<close>

theorem content_classification:
  assumes "snd (fetchFile H (getEncryptedFilename (trim i) (trim d))) = Inr blob"
    and "snd (decrypt H (derived_key (trim d) (trim i)) blob) = Inr text"
    and "snd (fetchFile H (getHash (trim i))) = Inr blob'"
    and "snd (decrypt H (derived_key (trim d) (trim i)) blob') = Inr text'"
  shows "is_html H text =
           (startsWith (toLowerCase H (trim text)) (str ''<!doctype'')
            \<or> startsWith (toLowerCase H (trim text)) (str ''<html''))
         \<and> content_children (fst (submit_main H ui i d)) =
             [BackButton, if is_html H text then Iframe frame_sandbox text else Pre text]
         \<and> content_children (fst (submit_alt H ui i d)) =
             (if is_html H text' then [] else [BackButton, Pre text'])
         \<and> document_written (fst (submit_alt H ui i d)) =
             (if is_html H text' then Some text' else document_written ui)
         \<and> is_html H (str ''  <!DOCTYPE html><p>hi</p>'')
         \<and> \<not> is_html H (str ''plain result text'')"
  using submit_main_success [OF assms(1,2), of ui] submit_alt_success [OF assms(3,4), of ui]
  by (simp add: main_display_children alt_display_children is_html_example
        is_html_example_text) (simp add: is_html_def)


lemma derived_key_simps:
  "algorithm (derived_key d i) = AES_GCM 256" "Decrypt \<in> set (usages (derived_key d i))"
  by (simp_all add: derived_key_def)

lemma fetchFile_fixed_ok:
  "snd (fetchFile (fixed_host (ok_response bs) p) f) = Inr bs"
  by (simp add: fetchFile_def fixed_host_simps ok_response_def Let_def)

lemma decode_html: "TextDecoder_decode [0x3C, 0x68, 0x74, 0x6D, 0x6C, 0x3E] = str ''<html>''"
  by (simp add: TextDecoder_decode_def strip_bom_def utf8_items_def utf16_units_def
        replacement_def str_simps)

lemma is_html_html: "is_html H (str ''<html>'')"
  by (simp add: is_html_def trim_def str_simps is_js_space_def toLowerCase_def lower_unit_def
        startsWith_def)

lemma decrypt_fixed_html:
  "snd (decrypt (fixed_host r (Some [0x3C, 0x68, 0x74, 0x6D, 0x6C, 0x3E])) (derived_key d i)
         (replicate 28 7)) = Inr (str ''<html>'')"
  by (simp add: decrypt_long subtle_decrypt_valid_key derived_key_simps fixed_host_simps
        decode_html)

theorem content_classification_witness:
  "snd (fetchFile (fixed_host (ok_response (replicate 28 7))
                     (Some [0x3C, 0x68, 0x74, 0x6D, 0x6C, 0x3E]))
         (getEncryptedFilename (trim (str ''2020123'')) (trim (str ''987654321''))))
     = Inr (replicate 28 7)
   \<and> snd (decrypt (fixed_host (ok_response (replicate 28 7))
                      (Some [0x3C, 0x68, 0x74, 0x6D, 0x6C, 0x3E]))
            (derived_key (trim (str ''987654321'')) (trim (str ''2020123''))) (replicate 28 7))
     = Inr (str ''<html>'')
   \<and> content_children
        (fst (submit_main (fixed_host (ok_response (replicate 28 7))
                             (Some [0x3C, 0x68, 0x74, 0x6D, 0x6C, 0x3E]))
                blank_page (str ''2020123'') (str ''987654321'')))
     = [BackButton, Iframe frame_sandbox (str ''<html>'')]
   \<and> document_written
        (fst (submit_alt (fixed_host (ok_response (replicate 28 7))
                            (Some [0x3C, 0x68, 0x74, 0x6D, 0x6C, 0x3E]))
                blank_page (str ''2020123'') (str ''987654321'')))
     = Some (str ''<html>'')"
  using content_classification
     [of "fixed_host (ok_response (replicate 28 7)) (Some [0x3C, 0x68, 0x74, 0x6D, 0x6C, 0x3E])"
         "str ''2020123''" "str ''987654321''" "replicate 28 7" "str ''<html>''"
         "replicate 28 7" "str ''<html>''" blank_page]
  by (simp only: fetchFile_fixed_ok decrypt_fixed_html is_html_html if_True simp_thms)

section \<open>White space around the form values\<close>

lemma dropWhile_all: "list_all P xs \<Longrightarrow> dropWhile P (xs @ ys) = dropWhile P ys"
  by (induction xs) simp_all

lemma dropWhile_all_Nil: "list_all P xs \<Longrightarrow> dropWhile P xs = []"
  by (induction xs) simp_all

lemma trim_left: "list_all is_js_space l \<Longrightarrow> trim (l @ s) = trim s"
  by (simp add: trim_def dropWhile_all)

lemma trim_right:
  assumes "list_all is_js_space r"
  shows "trim (s @ r) = trim s"
proof (cases "list_all is_js_space s")
  case True
  have a: "dropWhile is_js_space s = []"
    by (rule dropWhile_all_Nil [OF True])
  have "list_all is_js_space (s @ r)"
    using True assms by simp
  then have b: "dropWhile is_js_space (s @ r) = []"
    by (rule dropWhile_all_Nil)
  show ?thesis by (simp only: trim_def a b)
next
  case False
  then obtain x where "x \<in> set s" "\<not> is_js_space x"
    by (auto simp add: list_all_iff)
  then have "dropWhile is_js_space (s @ r) = dropWhile is_js_space s @ r"
    by simp
  moreover have "list_all is_js_space (rev r)"
    using assms by (simp add: list_all_iff)
  ultimately show ?thesis
    by (simp add: trim_def dropWhile_all)
qed

lemma trim_surround:
  "list_all is_js_space l \<Longrightarrow> list_all is_js_space r \<Longrightarrow> trim (l @ s @ r) = trim s"
  by (simp add: trim_left trim_right)

text \<open>
  C10. Both handlers trim the two form values first. White space around the index or
  the id therefore changes nothing: the run gives the same page and the same external
  calls, and the locator and the key are the same.
\<close>

theorem submit_ignores_surrounding_space:
  assumes "list_all is_js_space l1" "list_all is_js_space r1"
    and "list_all is_js_space l2" "list_all is_js_space r2"
  shows "submit_main H ui (l1 @ i @ r1) (l2 @ d @ r2) = submit_main H ui i d
         \<and> submit_alt H ui (l1 @ i @ r1) (l2 @ d @ r2) = submit_alt H ui i d
         \<and> getEncryptedFilename (trim (l1 @ i @ r1)) (trim (l2 @ d @ r2))
             = getEncryptedFilename (trim i) (trim d)
         \<and> getKey H (trim (l2 @ d @ r2)) (trim (l1 @ i @ r1)) = getKey H (trim d) (trim i)"
  using assms by (simp add: submit_main_def submit_alt_def trim_surround)

theorem submit_ignores_surrounding_space_witness:
  "list_all is_js_space [0x20, 0x09] \<and> list_all is_js_space [0xA0]
   \<and> submit_main (fixed_host (ok_response []) None) blank_page
         ([0x20, 0x09] @ str ''2020123'' @ [0xA0]) ([0x20, 0x09] @ str ''987654321'' @ [0xA0])
       = submit_main (fixed_host (ok_response []) None) blank_page
           (str ''2020123'') (str ''987654321'')"
  using submit_ignores_surrounding_space
     [of "[0x20, 0x09]" "[0xA0]" "[0x20, 0x09]" "[0xA0]" "fixed_host (ok_response []) None"
         blank_page "str ''2020123''" "str ''987654321''"]
  by (simp add: is_js_space_def)

section \<open>Hexadecimal rendering\<close>

text \<open>
  The rendering of the program, \<^verbatim>\<open>b.toString(16).padStart(2, '0').toUpperCase()\<close>
  joined over the bytes, is upper-case hexadecimal with two digits a byte, and it is
  injective.
\<close>

lemma hex_digits_nth:
  "hex_digits = [0x30, 0x31, 0x32, 0x33, 0x34, 0x35, 0x36, 0x37, 0x38, 0x39,
                 0x61, 0x62, 0x63, 0x64, 0x65, 0x66]"
  by (simp add: hex_digits_def str_simps)

lemma HEX_DIGITS_nth:
  "HEX_DIGITS = [0x30, 0x31, 0x32, 0x33, 0x34, 0x35, 0x36, 0x37, 0x38, 0x39,
                 0x41, 0x42, 0x43, 0x44, 0x45, 0x46]"
  by (simp add: HEX_DIGITS_def str_simps)

lemma upper_hex_digits: "map upper_unit hex_digits = HEX_DIGITS"
  by (simp add: hex_digits_nth HEX_DIGITS_nth upper_unit_def)

lemma upper_hex_digit:
  assumes "d < 16"
  shows "upper_unit (hex_digits ! d) = HEX_DIGITS ! d"
proof -
  have "d < length hex_digits" using assms by (simp add: hex_digits_nth)
  then have "map upper_unit hex_digits ! d = upper_unit (hex_digits ! d)"
    by (rule nth_map)
  then show ?thesis by (simp add: upper_hex_digits)
qed

lemma toString16_byte:
  assumes "n < 256"
  shows "padStart 2 (str ''0'') (toString16 n) = [hex_digits ! (n div 16), hex_digits ! (n mod 16)]"
proof (cases "n < 16")
  case True
  then show ?thesis
    by (simp add: toString16.simps [of n] padStart_def str_simps hex_digits_nth)
next
  case False
  then have "n div 16 < 16" using assms by simp
  then have "toString16 (n div 16) = [hex_digits ! (n div 16)]"
    by (simp add: toString16.simps [of "n div 16"])
  then show ?thesis
    using False by (simp add: toString16.simps [of n] padStart_def)
qed

lemma byte_hex_eq: "byte_hex b = [HEX_DIGITS ! (unat b div 16), HEX_DIGITS ! (unat b mod 16)]"
proof -
  have n: "unat b < 256" using unsigned_less [of b, where ?'a = nat] by simp
  then have "unat b div 16 < 16" "unat b mod 16 < 16" by simp_all
  then show ?thesis
    by (simp add: byte_hex_def toString16_byte [OF n] toUpperCase_ascii_def upper_hex_digit)
qed

lemma byte_hex_fun:
  "byte_hex = (\<lambda>b. [HEX_DIGITS ! (unat b div 16), HEX_DIGITS ! (unat b mod 16)])"
  by (rule ext) (rule byte_hex_eq)

lemma hex_join_eq: "hex_join bs = hex_upper bs"
  by (simp add: hex_join_def hex_upper_def byte_hex_fun)

lemma length_hex_upper: "length (hex_upper bs) = 2 * length bs"
  by (induction bs) (simp_all add: hex_upper_def)

lemma hex_upper_chars: "set (hex_upper bs) \<subseteq> set HEX_DIGITS"
proof (induction bs)
  case Nil
  then show ?case by (simp add: hex_upper_def)
next
  case (Cons b bs)
  have "unat b < 256" using unsigned_less [of b, where ?'a = nat] by simp
  then have "unat b div 16 < length HEX_DIGITS" "unat b mod 16 < length HEX_DIGITS"
    by (simp_all add: HEX_DIGITS_nth)
  then have "HEX_DIGITS ! (unat b div 16) \<in> set HEX_DIGITS"
    "HEX_DIGITS ! (unat b mod 16) \<in> set HEX_DIGITS"
    by (simp_all only: nth_mem)
  then show ?case using Cons by (simp add: hex_upper_def)
qed

lemma distinct_HEX_DIGITS: "distinct HEX_DIGITS"
  by (simp add: HEX_DIGITS_nth)

lemma hex_pair_inj:
  fixes a b :: byte
  assumes "HEX_DIGITS ! (unat a div 16) = HEX_DIGITS ! (unat b div 16)"
    and "HEX_DIGITS ! (unat a mod 16) = HEX_DIGITS ! (unat b mod 16)"
  shows "a = b"
proof -
  have "unat a < 256" "unat b < 256" using unsigned_less [of a, where ?'a = nat] unsigned_less [of b, where ?'a = nat] by simp_all
  then have l: "unat a div 16 < length HEX_DIGITS" "unat b div 16 < length HEX_DIGITS"
    "unat a mod 16 < length HEX_DIGITS" "unat b mod 16 < length HEX_DIGITS"
    by (simp_all add: HEX_DIGITS_nth)
  have "unat a div 16 = unat b div 16"
    using assms(1) l(1,2) distinct_HEX_DIGITS by (simp add: nth_eq_iff_index_eq)
  moreover have "unat a mod 16 = unat b mod 16"
    using assms(2) l(3,4) distinct_HEX_DIGITS by (simp add: nth_eq_iff_index_eq)
  ultimately have "unat a = unat b"
    by (metis div_mult_mod_eq)
  then show ?thesis by (rule unsigned_word_eqI)
qed

lemma hex_upper_inj: "hex_upper xs = hex_upper ys \<Longrightarrow> xs = ys"
proof (induction xs arbitrary: ys)
  case Nil
  then show ?case by (cases ys) (simp_all add: hex_upper_def)
next
  case (Cons a xs)
  then obtain b zs where ys: "ys = b # zs"
    by (cases ys) (simp_all add: hex_upper_def)
  with Cons.prems have "a = b" "hex_upper xs = hex_upper zs"
    by (simp_all add: hex_upper_def hex_pair_inj)
  then show ?case using Cons.IH ys by simp
qed

lemma length_getHash: "length (getHash i) = 64"
  by (simp add: getHash_def hex_join_eq length_hex_upper length_sha256)

lemma getEncryptedFilename_eq:
  "getEncryptedFilename i d
     = hex_upper (sha256 (TextEncoder_encode (i @ str ''|'' @ d))) @ str ''.enc''"
  by (simp add: getEncryptedFilename_def hex_join_eq Let_def)

lemma length_getEncryptedFilename: "length (getEncryptedFilename i d) = 68"
  by (simp add: getEncryptedFilename_eq length_hex_upper length_sha256 str_simps)

section \<open>UTF-8: decoding what the encoder wrote\<close>

text \<open>
  The decoder reads the bytes of one encoded scalar value back as that value, whatever
  follows. The four lemmas follow the four lengths of a UTF-8 sequence; the digits of
  the code point in base 64 are named, so that only linear arithmetic is left.
\<close>

lemma unat_byte_of_nat: "n < 256 \<Longrightarrow> unat (word_of_nat n :: byte) = n"
  by (simp add: unat_of_nat)

lemma mod_offset: "q < m \<Longrightarrow> (k * m + q) mod m = (q::nat)"
  by simp

lemma utf8_run_1:
  assumes "c < 0x80"
  shows "utf8_run 0 0 0x80 0xBF (utf8_bytes c @ rest) = Some c # utf8_run 0 0 0x80 0xBF rest"
  using assms by (simp add: utf8_bytes_def unat_byte_of_nat)

lemma utf8_run_2:
  assumes "0x80 \<le> c" "c < 0x800"
  shows "utf8_run 0 0 0x80 0xBF (utf8_bytes c @ rest) = Some c # utf8_run 0 0 0x80 0xBF rest"
proof -
  define q where "q = c div 0x40"
  define r where "r = c mod 0x40"
  have c: "c = q * 0x40 + r" and r: "r < 0x40"
    by (simp_all add: q_def r_def)
  have q: "2 \<le> q" "q < 0x20"
    using assms c r by linarith+
  have m: "(0xC0 + q) mod 0x20 = q" "(0x80 + r) mod 0x40 = r"
    using mod_offset [of q "0x20" 6] mod_offset [of r "0x40" 2] q r by simp_all
  have u: "unat (0xC0 + word_of_nat q :: byte) = 0xC0 + q"
    "unat (0x80 + word_of_nat r :: byte) = 0x80 + r"
    using unat_byte_of_nat [of "0xC0 + q"] unat_byte_of_nat [of "0x80 + r"] q r by simp_all
  have "utf8_bytes c = [word_of_nat (0xC0 + q), word_of_nat (0x80 + r)]"
    using assms by (simp add: utf8_bytes_def q_def r_def)
  then show ?thesis
    using q r by (simp add: u m c)
qed


lemma utf8_run_3:
  assumes "0x800 \<le> c" "c < 0x10000" "\<not> (0xD800 \<le> c \<and> c \<le> 0xDFFF)"
  shows "utf8_run 0 0 0x80 0xBF (utf8_bytes c @ rest) = Some c # utf8_run 0 0 0x80 0xBF rest"
proof -
  define d where "d = c div 0x40"
  define r where "r = c mod 0x40"
  define p where "p = d div 0x40"
  define q where "q = d mod 0x40"
  have c: "c = d * 0x40 + r" and r: "r < 0x40"
    by (simp_all add: d_def r_def)
  have d: "d = p * 0x40 + q" and q: "q < 0x40"
    by (simp_all add: p_def q_def)
  have p: "p < 0x10"
    using assms c d r q by linarith
  have lo: "p = 0 \<Longrightarrow> 0x20 \<le> q"
    using assms c d r q by linarith
  have hi: "p = 0x0D \<Longrightarrow> q < 0x20"
    using assms c d r q by linarith
  have m: "(0xE0 + p) mod 0x10 = p" "(0x80 + q) mod 0x40 = q" "(0x80 + r) mod 0x40 = r"
    using mod_offset [of p "0x10" 14] mod_offset [of q "0x40" 2] mod_offset [of r "0x40" 2] p q r
    by simp_all
  have u: "unat (0xE0 + word_of_nat p :: byte) = 0xE0 + p"
    "unat (0x80 + word_of_nat q :: byte) = 0x80 + q"
    "unat (0x80 + word_of_nat r :: byte) = 0x80 + r"
    using unat_byte_of_nat [of "0xE0 + p"] unat_byte_of_nat [of "0x80 + q"]
      unat_byte_of_nat [of "0x80 + r"] p q r
    by simp_all
  have "c div 0x1000 = p"
    by (simp add: p_def d_def div_mult2_eq)
  then have "utf8_bytes c =
      [word_of_nat (0xE0 + p), word_of_nat (0x80 + q), word_of_nat (0x80 + r)]"
    using assms by (simp add: utf8_bytes_def q_def d_def r_def)
  then show ?thesis
    using p q r lo hi by (auto simp add: u m c d)
qed

lemma utf8_run_4:
  assumes "0x10000 \<le> c" "c < 0x110000"
  shows "utf8_run 0 0 0x80 0xBF (utf8_bytes c @ rest) = Some c # utf8_run 0 0 0x80 0xBF rest"
proof -
  define d where "d = c div 0x40"
  define r where "r = c mod 0x40"
  define e where "e = d div 0x40"
  define q where "q = d mod 0x40"
  define t where "t = e div 0x40"
  define p where "p = e mod 0x40"
  have c: "c = d * 0x40 + r" and r: "r < 0x40"
    by (simp_all add: d_def r_def)
  have d: "d = e * 0x40 + q" and q: "q < 0x40"
    by (simp_all add: e_def q_def)
  have e: "e = t * 0x40 + p" and p: "p < 0x40"
    by (simp_all add: t_def p_def)
  have t: "t \<le> 4"
    using assms c d e r q p by linarith
  have lo: "t = 0 \<Longrightarrow> 0x10 \<le> p"
    using assms c d e r q p by linarith
  have hi: "t = 4 \<Longrightarrow> p < 0x10"
    using assms c d e r q p by linarith
  have m: "(0xF0 + t) mod 0x08 = t" "(0x80 + p) mod 0x40 = p" "(0x80 + q) mod 0x40 = q"
    "(0x80 + r) mod 0x40 = r"
    using mod_offset [of t "0x08" 30] mod_offset [of p "0x40" 2] mod_offset [of q "0x40" 2]
      mod_offset [of r "0x40" 2] t p q r
    by simp_all
  have u: "unat (0xF0 + word_of_nat t :: byte) = 0xF0 + t"
    "unat (0x80 + word_of_nat p :: byte) = 0x80 + p"
    "unat (0x80 + word_of_nat q :: byte) = 0x80 + q"
    "unat (0x80 + word_of_nat r :: byte) = 0x80 + r"
    using unat_byte_of_nat [of "0xF0 + t"] unat_byte_of_nat [of "0x80 + p"]
      unat_byte_of_nat [of "0x80 + q"] unat_byte_of_nat [of "0x80 + r"] t p q r
    by simp_all
  have "c div 0x1000 = e" "c div 0x40000 = t"
    by (simp_all add: t_def e_def d_def div_mult2_eq)
  then have "utf8_bytes c =
      [word_of_nat (0xF0 + t), word_of_nat (0x80 + p), word_of_nat (0x80 + q),
       word_of_nat (0x80 + r)]"
    using assms by (simp add: utf8_bytes_def p_def q_def d_def r_def)
  then show ?thesis
    using t p q r lo hi by (auto simp add: u m c d e)
qed

lemma utf8_run_scalar:
  assumes "is_scalar c"
  shows "utf8_run 0 0 0x80 0xBF (utf8_bytes c @ rest) = Some c # utf8_run 0 0 0x80 0xBF rest"
proof -
  consider "c < 0x80" | "0x80 \<le> c" "c < 0x800" | "0x800 \<le> c" "c < 0x10000" | "0x10000 \<le> c"
    by linarith
  then show ?thesis
  proof cases
    case 1
    then show ?thesis by (rule utf8_run_1)
  next
    case 2
    then show ?thesis by (rule utf8_run_2)
  next
    case 3
    then show ?thesis using assms by (intro utf8_run_3) (simp_all add: is_scalar_def)
  next
    case 4
    then show ?thesis using assms by (intro utf8_run_4) (simp_all add: is_scalar_def)
  qed
qed

lemma utf8_items_encode:
  "list_all is_scalar cs \<Longrightarrow> utf8_items (concat (map utf8_bytes cs)) = map Some cs"
proof (induction cs)
  case Nil
  then show ?case by (simp add: utf8_items_def)
next
  case (Cons c cs)
  then show ?case
    using utf8_run_scalar [of c "concat (map utf8_bytes cs)"]
    by (simp add: utf8_items_def)
qed

section \<open>UTF-16 and UTF-8: the encoder is injective on well-formed strings\<close>

lemma scalar_of_unit_scalar: "is_scalar (scalar_of_unit u)"
proof -
  have "unat u < 0x10000" using unsigned_less [of u, where ?'a = nat] by simp
  then show ?thesis
    by (auto simp add: scalar_of_unit_def is_scalar_def is_high_surrogate_def
          is_low_surrogate_def)
qed

lemma pair_scalar:
  assumes "is_high_surrogate u" "is_low_surrogate v"
  shows "is_scalar (0x10000 + (unat u - 0xD800) * 0x400 + (unat v - 0xDC00))"
proof -
  define h where "h = unat u - 0xD800"
  define l where "l = unat v - 0xDC00"
  have "0xD800 \<le> unat u" "unat u \<le> 0xDBFF" "0xDC00 \<le> unat v" "unat v \<le> 0xDFFF"
    using assms by (simp_all add: is_high_surrogate_def is_low_surrogate_def)
  then have "h < 0x400" "l < 0x400"
    unfolding h_def l_def by linarith+
  then have "0x10000 + h * 0x400 + l < 0x110000" "0xDFFF < 0x10000 + h * 0x400 + l"
    by linarith+
  then show ?thesis
    by (simp add: is_scalar_def h_def l_def)
qed

lemma code_points_scalar: "list_all is_scalar (code_points s)"
  by (induction s rule: code_points.induct) (simp_all add: scalar_of_unit_scalar pair_scalar)

lemma utf16_units_unit:
  assumes "\<not> is_high_surrogate u" "\<not> is_low_surrogate u"
  shows "utf16_units (scalar_of_unit u) = [u]"
proof -
  have "unat u < 0x10000" using unsigned_less [of u, where ?'a = nat] by simp
  then show ?thesis
    using assms by (simp add: utf16_units_def scalar_of_unit_def)
qed

lemma utf16_units_pair:
  assumes "is_high_surrogate u" "is_low_surrogate v"
  shows "utf16_units (0x10000 + (unat u - 0xD800) * 0x400 + (unat v - 0xDC00)) = [u, v]"
proof -
  define h where "h = unat u - 0xD800"
  define l where "l = unat v - 0xDC00"
  have "0xD800 \<le> unat u" "unat u \<le> 0xDBFF" "0xDC00 \<le> unat v" "unat v \<le> 0xDFFF"
    using assms by (simp_all add: is_high_surrogate_def is_low_surrogate_def)
  then have b: "h < 0x400" "l < 0x400" and e: "0xD800 + h = unat u" "0xDC00 + l = unat v"
    unfolding h_def l_def by linarith+
  have "(h * 0x400 + l) div 0x400 = h" "(h * 0x400 + l) mod 0x400 = l"
    using b by simp_all
  then have "utf16_units (0x10000 + h * 0x400 + l)
      = [word_of_nat (0xD800 + h), word_of_nat (0xDC00 + l)]"
    by (simp add: utf16_units_def)
  also have "\<dots> = [u, v]"
    by (simp only: e) simp
  finally show ?thesis
    by (simp add: h_def l_def)
qed

lemma utf16_code_points:
  "well_formed s \<Longrightarrow> concat (map utf16_units (code_points s)) = s"
proof (induction s rule: code_points.induct)
  case 1
  then show ?case by simp
next
  case (2 u)
  then show ?case by (simp add: utf16_units_unit)
next
  case (3 u v r)
  show ?case
  proof (cases "is_high_surrogate u")
    case True
    with "3.prems" have lv: "is_low_surrogate v" and wr: "well_formed r"
      by simp_all
    have "concat (map utf16_units (code_points r)) = r"
      using "3.IH"(1) True lv wr by blast
    then show ?thesis
      using True lv by (simp add: utf16_units_pair)
  next
    case False
    with "3.prems" have nl: "\<not> is_low_surrogate u" and wr: "well_formed (v # r)"
      by simp_all
    have "concat (map utf16_units (code_points (v # r))) = v # r"
      using "3.IH"(2) False wr by blast
    then show ?thesis
      using False nl by (simp add: utf16_units_unit)
  qed
qed

lemma utf8_items_TextEncoder: "utf8_items (TextEncoder_encode s) = map Some (code_points s)"
  unfolding TextEncoder_encode_def by (rule utf8_items_encode) (rule code_points_scalar)

lemma TextEncoder_encode_inj:
  assumes "well_formed s" "well_formed t" "TextEncoder_encode s = TextEncoder_encode t"
  shows "s = t"
proof -
  have "utf8_items (TextEncoder_encode s) = utf8_items (TextEncoder_encode t)"
    by (simp only: assms(3))
  then have "map Some (code_points s) = map Some (code_points t)"
    by (simp only: utf8_items_TextEncoder)
  then have "code_points s = code_points t"
    by simp
  then have "concat (map utf16_units (code_points s)) = concat (map utf16_units (code_points t))"
    by (rule arg_cong)
  then show ?thesis
    by (simp only: utf16_code_points [OF assms(1)] utf16_code_points [OF assms(2)])
qed

lemma well_formed_append:
  "well_formed a \<Longrightarrow> well_formed b \<Longrightarrow> well_formed (a @ b)"
proof (induction a rule: well_formed.induct)
  case 1
  then show ?case by simp
next
  case (2 u)
  then show ?case by (cases b) simp_all
next
  case (3 u v r)
  then show ?case by (simp split: if_splits)
qed

text \<open>
  Decoding the encoding of a well-formed string gives the string back, unless it starts
  with U+FEFF, which the decoder drops as a byte order mark.
\<close>

lemma TextDecoder_TextEncoder:
  assumes "well_formed s" "take 1 s \<noteq> [0xFEFF]"
  shows "TextDecoder_decode (TextEncoder_encode s) = s"
proof -
  have "strip_bom (TextEncoder_encode s) = TextEncoder_encode s"
  proof (cases "take 3 (TextEncoder_encode s) = [0xEF, 0xBB, 0xBF]")
    case False
    then show ?thesis by (simp add: strip_bom_def)
  next
    case True
    then have "TextEncoder_encode s = 0xEF # 0xBB # 0xBF # drop 3 (TextEncoder_encode s)"
      by (metis append_Cons append_Nil append_take_drop_id)
    then have "utf8_items (TextEncoder_encode s)
        = Some 0xFEFF # utf8_items (drop 3 (TextEncoder_encode s))"
      using utf8_items_bom [of "drop 3 (TextEncoder_encode s)"] by simp
    then have "map Some (code_points s) = Some 0xFEFF # utf8_items (drop 3 (TextEncoder_encode s))"
      by (simp only: utf8_items_TextEncoder)
    then obtain cs where cs: "code_points s = 0xFEFF # cs"
      by (cases "code_points s") auto
    have "concat (map utf16_units (code_points s)) = s"
      by (rule utf16_code_points [OF assms(1)])
    then have "s = 0xFEFF # concat (map utf16_units cs)"
      by (simp add: cs utf16_units_def)
    then have "take 1 s = [0xFEFF]"
      by (metis One_nat_def take_Suc_Cons take0)
    then show ?thesis using assms(2) by simp
  qed
  then have "TextDecoder_decode (TextEncoder_encode s)
      = concat (map (\<lambda>x. utf16_units (replacement x)) (map Some (code_points s)))"
    by (simp only: TextDecoder_decode_def utf8_items_TextEncoder)
  also have "\<dots> = concat (map utf16_units (code_points s))"
    by (simp add: replacement_def comp_def)
  finally show ?thesis
    by (simp only: utf16_code_points [OF assms(1)])
qed

section \<open>The order of index and id in the locator\<close>

lemma delimiter_split:
  assumes "c \<notin> set a" "c \<notin> set b" "a @ c # x = b @ c # y"
  shows "a = b"
proof -
  have "takeWhile (\<lambda>u. u \<noteq> c) (a @ c # x) = a @ takeWhile (\<lambda>u. u \<noteq> c) (c # x)"
    using assms(1) by (intro takeWhile_append2) auto
  moreover have "takeWhile (\<lambda>u. u \<noteq> c) (b @ c # y) = b @ takeWhile (\<lambda>u. u \<noteq> c) (c # y)"
    using assms(2) by (intro takeWhile_append2) auto
  ultimately show ?thesis using assms(3) by simp
qed

text \<open>
  C8, as the code has it. For two different texts that do not contain the delimiter
  \<^verbatim>\<open>|\<close> and have no unpaired surrogate, the bytes that are hashed for (a, b) differ
  from those hashed for (b, a); the two locators are then equal exactly when SHA-256
  gives these two different inputs the same digest.
\<close>

theorem locator_order_sensitive:
  assumes "a \<noteq> b" "0x7C \<notin> set a" "0x7C \<notin> set b" "well_formed a" "well_formed b"
  shows "TextEncoder_encode (a @ str ''|'' @ b) \<noteq> TextEncoder_encode (b @ str ''|'' @ a)
         \<and> (getEncryptedFilename a b = getEncryptedFilename b a
              \<longleftrightarrow> sha256 (TextEncoder_encode (a @ str ''|'' @ b))
                   = sha256 (TextEncoder_encode (b @ str ''|'' @ a)))"
proof -
  have bar: "str ''|'' = [0x7C]" "well_formed [0x7C]"
    by (simp_all add: str_simps is_high_surrogate_def is_low_surrogate_def)
  have w: "well_formed (a @ str ''|'' @ b)" "well_formed (b @ str ''|'' @ a)"
    using assms(4,5) bar(2) by (simp_all only: bar(1) well_formed_append)
  have "a @ str ''|'' @ b \<noteq> b @ str ''|'' @ a"
  proof
    assume "a @ str ''|'' @ b = b @ str ''|'' @ a"
    then have "a @ 0x7C # b = b @ 0x7C # a" by (simp add: bar(1))
    then have "a = b" using assms(2,3) by (rule delimiter_split [rotated 2])
    then show False using assms(1) by simp
  qed
  then have ne: "TextEncoder_encode (a @ str ''|'' @ b) \<noteq> TextEncoder_encode (b @ str ''|'' @ a)"
    using TextEncoder_encode_inj [OF w] by blast
  have "getEncryptedFilename a b = getEncryptedFilename b a
        \<longleftrightarrow> hex_upper (sha256 (TextEncoder_encode (a @ str ''|'' @ b)))
             = hex_upper (sha256 (TextEncoder_encode (b @ str ''|'' @ a)))"
    by (simp add: getEncryptedFilename_eq)
  also have "\<dots> \<longleftrightarrow> sha256 (TextEncoder_encode (a @ str ''|'' @ b))
             = sha256 (TextEncoder_encode (b @ str ''|'' @ a))"
    by (auto dest: hex_upper_inj)
  finally show ?thesis using ne by simp
qed

theorem locator_order_sensitive_witness:
  "str ''A'' \<noteq> str ''B'' \<and> 0x7C \<notin> set (str ''A'') \<and> 0x7C \<notin> set (str ''B'')
   \<and> well_formed (str ''A'') \<and> well_formed (str ''B'')
   \<and> TextEncoder_encode (str ''A'' @ str ''|'' @ str ''B'')
       \<noteq> TextEncoder_encode (str ''B'' @ str ''|'' @ str ''A'')"
  using locator_order_sensitive [of "str ''A''" "str ''B''"]
  by (simp add: str_simps is_high_surrogate_def is_low_surrogate_def)

text \<open>
  The claim C8 as stated fails: the texts \<^verbatim>\<open>a\<close> and \<^verbatim>\<open>a|a\<close> differ, and both orders
  combine to \<^verbatim>\<open>a|a|a\<close>, hence to the same locator.
\<close>

theorem locator_order_counterexample:
  "str ''a'' \<noteq> str ''a|a''
   \<and> getEncryptedFilename (str ''a'') (str ''a|a'')
       = getEncryptedFilename (str ''a|a'') (str ''a'')"
  by (simp add: getEncryptedFilename_def str_simps)

text \<open>
  Without the delimiter the locators can still coincide: the encoder writes every
  unpaired surrogate as U+FFFD.
\<close>

lemma locator_unpaired_surrogates:
  "[0xD800] \<noteq> [0xD801 :: 16 word]
   \<and> getEncryptedFilename [0xD800] [0xD801] = getEncryptedFilename [0xD801] [0xD800]"
  by (simp add: getEncryptedFilename_def str_simps TextEncoder_encode_def scalar_of_unit_def
        is_high_surrogate_def is_low_surrogate_def)

section \<open>SHA-256 on three messages\<close>

text \<open>
  The messages \<^verbatim>\<open>abc\<close> (the one-block example of FIPS 180-4), \<^verbatim>\<open>2020123|987654321\<close>
  and \<^verbatim>\<open>2020123\<close>, each computed in steps: the padded block, its sixteen words, the
  message schedule, the 64 rounds four at a time, and the digest.
\<close>

lemma schedule_numeral:
  "schedule (numeral k) w =
     schedule (pred_numeral k)
       (w @ [sigma1 (w ! (length w - 2)) + w ! (length w - 7)
               + sigma0 (w ! (length w - 15)) + w ! (length w - 16)])"
  by (simp add: numeral_eq_Suc)

lemma sha_blocks_numeral:
  "sha_blocks (numeral k) h m = sha_blocks (pred_numeral k) (compress h (take 64 m)) (drop 64 m)"
  by (simp add: numeral_eq_Suc)

lemma replicate_unfold: "replicate (numeral k) x = x # replicate (pred_numeral k) x"
  by (simp add: numeral_eq_Suc)

lemma state_of_H256:
  "state_of H256 =
     \<lparr>va = 0x6A09E667, vb = 0xBB67AE85, vc = 0x3C6EF372, vd = 0xA54FF53A,
      ve = 0x510E527F, vf = 0x9B05688C, vg = 0x1F83D9AB, vh = 0x5BE0CD19\<rparr>"
  by (simp add: state_of_def H256_def)

lemma abc_pad:
  "sha_pad [0x61, 0x62, 0x63] =
    [0x61, 0x62, 0x63, 0x80, 0x00, 0x00, 0x00, 0x00, 0x00, 0x00, 0x00, 0x00, 0x00, 0x00, 0x00, 0x00,
     0x00, 0x00, 0x00, 0x00, 0x00, 0x00, 0x00, 0x00, 0x00, 0x00, 0x00, 0x00, 0x00, 0x00, 0x00, 0x00,
     0x00, 0x00, 0x00, 0x00, 0x00, 0x00, 0x00, 0x00, 0x00, 0x00, 0x00, 0x00, 0x00, 0x00, 0x00, 0x00,
     0x00, 0x00, 0x00, 0x00, 0x00, 0x00, 0x00, 0x00, 0x00, 0x00, 0x00, 0x00, 0x00, 0x00, 0x00, 0x18]"
  by (simp add: sha_pad_def be64_def replicate_unfold upt_rec)

lemma abc_words:
  "be_words
    [0x61, 0x62, 0x63, 0x80, 0x00, 0x00, 0x00, 0x00, 0x00, 0x00, 0x00, 0x00, 0x00, 0x00, 0x00, 0x00,
     0x00, 0x00, 0x00, 0x00, 0x00, 0x00, 0x00, 0x00, 0x00, 0x00, 0x00, 0x00, 0x00, 0x00, 0x00, 0x00,
     0x00, 0x00, 0x00, 0x00, 0x00, 0x00, 0x00, 0x00, 0x00, 0x00, 0x00, 0x00, 0x00, 0x00, 0x00, 0x00,
     0x00, 0x00, 0x00, 0x00, 0x00, 0x00, 0x00, 0x00, 0x00, 0x00, 0x00, 0x00, 0x00, 0x00, 0x00, 0x18] =
    [0x61626380, 0x00000000, 0x00000000, 0x00000000, 0x00000000, 0x00000000, 0x00000000, 0x00000000,
     0x00000000, 0x00000000, 0x00000000, 0x00000000, 0x00000000, 0x00000000, 0x00000000, 0x00000018]"
  by simp

lemma abc_schedule:
  "schedule 48
    [0x61626380, 0x00000000, 0x00000000, 0x00000000, 0x00000000, 0x00000000, 0x00000000, 0x00000000,
     0x00000000, 0x00000000, 0x00000000, 0x00000000, 0x00000000, 0x00000000, 0x00000000, 0x00000018] =
    [0x61626380, 0x00000000, 0x00000000, 0x00000000, 0x00000000, 0x00000000, 0x00000000, 0x00000000,
     0x00000000, 0x00000000, 0x00000000, 0x00000000, 0x00000000, 0x00000000, 0x00000000, 0x00000018,
     0x61626380, 0x000F0000, 0x7DA86405, 0x600003C6, 0x3E9D7B78, 0x0183FC00, 0x12DCBFDB, 0xE2E2C38E,
     0xC8215C1A, 0xB73679A2, 0xE5BC3909, 0x32663C5B, 0x9D209D67, 0xEC8726CB, 0x702138A4, 0xD3B7973B,
     0x93F5997F, 0x3B68BA73, 0xAFF4FFC1, 0xF10A5C62, 0x0A8B3996, 0x72AF830A, 0x9409E33E, 0x24641522,
     0x9F47BF94, 0xF0A64F5A, 0x3E246A79, 0x27333BA3, 0x0C4763F2, 0x840ABF27, 0x7A290D5D, 0x065C43DA,
     0xFB3E89CB, 0xCC7617DB, 0xB9E66C34, 0xA9993667, 0x84BADEDD, 0xC21462BC, 0x1487472C, 0xB20F7A99,
     0xEF57B9CD, 0xEBE6B238, 0x9FE3095E, 0x78BC8D4B, 0xA43FCF15, 0x668B2FF8, 0xEEABA2CC, 0x12B1EDEB]"
  by (simp add: schedule_numeral sigma0_def sigma1_def rotr_def)

lemma abc_rounds_0:
  "foldl sha_round
     \<lparr>va = 0x6A09E667, vb = 0xBB67AE85, vc = 0x3C6EF372, vd = 0xA54FF53A,
      ve = 0x510E527F, vf = 0x9B05688C, vg = 0x1F83D9AB, vh = 0x5BE0CD19\<rparr>
     [(0x428A2F98, 0x61626380), (0x71374491, 0x00000000), (0xB5C0FBCF, 0x00000000), (0xE9B5DBA5, 0x00000000)] =
     \<lparr>va = 0xD550F666, vb = 0xC8C347A7, vc = 0x5A6AD9AD, vd = 0x5D6AEBCD,
      ve = 0x24E00850, vf = 0xF92939EB, vg = 0x78CE7989, vh = 0xFA2A4622\<rparr>"
  by (simp add: sha_round_def Sigma0_def Sigma1_def Ch_def Maj_def rotr_def Let_def)

lemma abc_rounds_4:
  "foldl sha_round
     \<lparr>va = 0xD550F666, vb = 0xC8C347A7, vc = 0x5A6AD9AD, vd = 0x5D6AEBCD,
      ve = 0x24E00850, vf = 0xF92939EB, vg = 0x78CE7989, vh = 0xFA2A4622\<rparr>
     [(0x3956C25B, 0x00000000), (0x59F111F1, 0x00000000), (0x923F82A4, 0x00000000), (0xAB1C5ED5, 0x00000000)] =
     \<lparr>va = 0x85A07B5F, vb = 0xE5030380, vc = 0x2B4209F5, vd = 0x04409A6A,
      ve = 0x0C657A79, vf = 0x9B27A401, vg = 0x714260AD, vh = 0x43ADA245\<rparr>"
  by (simp add: sha_round_def Sigma0_def Sigma1_def Ch_def Maj_def rotr_def Let_def)

lemma abc_rounds_8:
  "foldl sha_round
     \<lparr>va = 0x85A07B5F, vb = 0xE5030380, vc = 0x2B4209F5, vd = 0x04409A6A,
      ve = 0x0C657A79, vf = 0x9B27A401, vg = 0x714260AD, vh = 0x43ADA245\<rparr>
     [(0xD807AA98, 0x00000000), (0x12835B01, 0x00000000), (0x243185BE, 0x00000000), (0x550C7DC3, 0x00000000)] =
     \<lparr>va = 0xF71FC5A9, vb = 0x4798A3F4, vc = 0x8C87346B, vd = 0x8E04ECB9,
      ve = 0x816FD6E9, vf = 0x436B23E8, vg = 0x1CC92596, vh = 0x32CA2D8C\<rparr>"
  by (simp add: sha_round_def Sigma0_def Sigma1_def Ch_def Maj_def rotr_def Let_def)

lemma abc_rounds_12:
  "foldl sha_round
     \<lparr>va = 0xF71FC5A9, vb = 0x4798A3F4, vc = 0x8C87346B, vd = 0x8E04ECB9,
      ve = 0x816FD6E9, vf = 0x436B23E8, vg = 0x1CC92596, vh = 0x32CA2D8C\<rparr>
     [(0x72BE5D74, 0x00000000), (0x80DEB1FE, 0x00000000), (0x9BDC06A7, 0x00000000), (0xC19BF174, 0x00000018)] =
     \<lparr>va = 0xB0FA238E, vb = 0xC0645FDE, vc = 0xD932EB16, vd = 0x87912990,
      ve = 0x07590DCD, vf = 0x0B92F20C, vg = 0x745A48DE, vh = 0x1E578218\<rparr>"
  by (simp add: sha_round_def Sigma0_def Sigma1_def Ch_def Maj_def rotr_def Let_def)

lemma abc_rounds_16:
  "foldl sha_round
     \<lparr>va = 0xB0FA238E, vb = 0xC0645FDE, vc = 0xD932EB16, vd = 0x87912990,
      ve = 0x07590DCD, vf = 0x0B92F20C, vg = 0x745A48DE, vh = 0x1E578218\<rparr>
     [(0xE49B69C1, 0x61626380), (0xEFBE4786, 0x000F0000), (0x0FC19DC6, 0x7DA86405), (0x240CA1CC, 0x600003C6)] =
     \<lparr>va = 0xE1F20C33, vb = 0xFE777BBF, vc = 0xC2FBD9D1, vd = 0x21DA9A9B,
      ve = 0xB0638179, vf = 0xCC899961, vg = 0x846EE454, vh = 0x8034229C\<rparr>"
  by (simp add: sha_round_def Sigma0_def Sigma1_def Ch_def Maj_def rotr_def Let_def)

lemma abc_rounds_20:
  "foldl sha_round
     \<lparr>va = 0xE1F20C33, vb = 0xFE777BBF, vc = 0xC2FBD9D1, vd = 0x21DA9A9B,
      ve = 0xB0638179, vf = 0xCC899961, vg = 0x846EE454, vh = 0x8034229C\<rparr>
     [(0x2DE92C6F, 0x3E9D7B78), (0x4A7484AA, 0x0183FC00), (0x5CB0A9DC, 0x12DCBFDB), (0x76F988DA, 0xE2E2C38E)] =
     \<lparr>va = 0xC5D53D8D, vb = 0xA7A3623F, vc = 0xC2606D6D, vd = 0x9DC68B63,
      ve = 0xAA47C347, vf = 0x49F5114A, vg = 0xE1257970, vh = 0x8ADA8930\<rparr>"
  by (simp add: sha_round_def Sigma0_def Sigma1_def Ch_def Maj_def rotr_def Let_def)

lemma abc_rounds_24:
  "foldl sha_round
     \<lparr>va = 0xC5D53D8D, vb = 0xA7A3623F, vc = 0xC2606D6D, vd = 0x9DC68B63,
      ve = 0xAA47C347, vf = 0x49F5114A, vg = 0xE1257970, vh = 0x8ADA8930\<rparr>
     [(0x983E5152, 0xC8215C1A), (0xA831C66D, 0xB73679A2), (0xB00327C8, 0xE5BC3909), (0xBF597FC7, 0x32663C5B)] =
     \<lparr>va = 0x77D37528, vb = 0xB62EC4BC, vc = 0xCDE8037D, vd = 0x1C2C2838,
      ve = 0xEDFFBFF8, vf = 0xC74C6516, vg = 0x14383D8E, vh = 0x2823EF91\<rparr>"
  by (simp add: sha_round_def Sigma0_def Sigma1_def Ch_def Maj_def rotr_def Let_def)

lemma abc_rounds_28:
  "foldl sha_round
     \<lparr>va = 0x77D37528, vb = 0xB62EC4BC, vc = 0xCDE8037D, vd = 0x1C2C2838,
      ve = 0xEDFFBFF8, vf = 0xC74C6516, vg = 0x14383D8E, vh = 0x2823EF91\<rparr>
     [(0xC6E00BF3, 0x9D209D67), (0xD5A79147, 0xEC8726CB), (0x06CA6351, 0x702138A4), (0x14292967, 0xD3B7973B)] =
     \<lparr>va = 0x73B33BF5, vb = 0xEA992A22, vc = 0xA0060B30, vd = 0x363482C9,
      ve = 0xBA591112, vf = 0x0109AB3A, vg = 0xADE79437, vh = 0x6112A3B7\<rparr>"
  by (simp add: sha_round_def Sigma0_def Sigma1_def Ch_def Maj_def rotr_def Let_def)

lemma abc_rounds_32:
  "foldl sha_round
     \<lparr>va = 0x73B33BF5, vb = 0xEA992A22, vc = 0xA0060B30, vd = 0x363482C9,
      ve = 0xBA591112, vf = 0x0109AB3A, vg = 0xADE79437, vh = 0x6112A3B7\<rparr>
     [(0x27B70A85, 0x93F5997F), (0x2E1B2138, 0x3B68BA73), (0x4D2C6DFC, 0xAFF4FFC1), (0x53380D13, 0xF10A5C62)] =
     \<lparr>va = 0x65A0CFE4, vb = 0xA9A7738C, vc = 0xFE604DF5, vd = 0x98E12507,
      ve = 0xF4B002D6, vf = 0x085F3833, vg = 0x59249DD3, vh = 0x9CD9F5F6\<rparr>"
  by (simp add: sha_round_def Sigma0_def Sigma1_def Ch_def Maj_def rotr_def Let_def)

lemma abc_rounds_36:
  "foldl sha_round
     \<lparr>va = 0x65A0CFE4, vb = 0xA9A7738C, vc = 0xFE604DF5, vd = 0x98E12507,
      ve = 0xF4B002D6, vf = 0x085F3833, vg = 0x59249DD3, vh = 0x9CD9F5F6\<rparr>
     [(0x650A7354, 0x0A8B3996), (0x766A0ABB, 0x72AF830A), (0x81C2C92E, 0x9409E33E), (0x92722C85, 0x24641522)] =
     \<lparr>va = 0x79EA687A, vb = 0x6DC57A8A, vc = 0x34DF1604, vd = 0x41A65CB1,
      ve = 0x1EFBC0A0, vf = 0xF0781BC8, vg = 0xA507A53D, vh = 0x0772A26B\<rparr>"
  by (simp add: sha_round_def Sigma0_def Sigma1_def Ch_def Maj_def rotr_def Let_def)

lemma abc_rounds_40:
  "foldl sha_round
     \<lparr>va = 0x79EA687A, vb = 0x6DC57A8A, vc = 0x34DF1604, vd = 0x41A65CB1,
      ve = 0x1EFBC0A0, vf = 0xF0781BC8, vg = 0xA507A53D, vh = 0x0772A26B\<rparr>
     [(0xA2BFE8A1, 0x9F47BF94), (0xA81A664B, 0xF0A64F5A), (0xC24B8B70, 0x3E246A79), (0xC76C51A3, 0x27333BA3)] =
     \<lparr>va = 0x9D4BAF93, vb = 0x17AA0DFE, vc = 0xDF46652F, vd = 0xD6670766,
      ve = 0xFDA24C2E, vf = 0xDECD4715, vg = 0x838B2711, vh = 0x26352D63\<rparr>"
  by (simp add: sha_round_def Sigma0_def Sigma1_def Ch_def Maj_def rotr_def Let_def)

lemma abc_rounds_44:
  "foldl sha_round
     \<lparr>va = 0x9D4BAF93, vb = 0x17AA0DFE, vc = 0xDF46652F, vd = 0xD6670766,
      ve = 0xFDA24C2E, vf = 0xDECD4715, vg = 0x838B2711, vh = 0x26352D63\<rparr>
     [(0xD192E819, 0x0C4763F2), (0xD6990624, 0x840ABF27), (0xF40E3585, 0x7A290D5D), (0x106AA070, 0x065C43DA)] =
     \<lparr>va = 0x4172328D, vb = 0xA14C14B0, vc = 0x72AB4B91, vd = 0x26628815,
      ve = 0xFECF0BC6, vf = 0xD57B94A9, vg = 0xB7755DA1, vh = 0xA80F11F0\<rparr>"
  by (simp add: sha_round_def Sigma0_def Sigma1_def Ch_def Maj_def rotr_def Let_def)

lemma abc_rounds_48:
  "foldl sha_round
     \<lparr>va = 0x4172328D, vb = 0xA14C14B0, vc = 0x72AB4B91, vd = 0x26628815,
      ve = 0xFECF0BC6, vf = 0xD57B94A9, vg = 0xB7755DA1, vh = 0xA80F11F0\<rparr>
     [(0x19A4C116, 0xFB3E89CB), (0x1E376C08, 0xCC7617DB), (0x2748774C, 0xB9E66C34), (0x34B0BCB5, 0xA9993667)] =
     \<lparr>va = 0x886E7A22, vb = 0x7A0508A1, vc = 0xF11BFAA8, vd = 0x05757CEB,
      ve = 0x49231C1E, vf = 0x52F1CCF7, vg = 0x6E5C390C, vh = 0xBD714038\<rparr>"
  by (simp add: sha_round_def Sigma0_def Sigma1_def Ch_def Maj_def rotr_def Let_def)

lemma abc_rounds_52:
  "foldl sha_round
     \<lparr>va = 0x886E7A22, vb = 0x7A0508A1, vc = 0xF11BFAA8, vd = 0x05757CEB,
      ve = 0x49231C1E, vf = 0x52F1CCF7, vg = 0x6E5C390C, vh = 0xBD714038\<rparr>
     [(0x391C0CB3, 0x84BADEDD), (0x4ED8AA4A, 0xC21462BC), (0x5B9CCA4F, 0x1487472C), (0x682E6FF3, 0xB20F7A99)] =
     \<lparr>va = 0x38CC9913, vb = 0x3EC45CDB, vc = 0xF5702FDB, vd = 0x101FD28F,
      ve = 0x54CB266B, vf = 0xE50E1B4F, vg = 0x9F4787C3, vh = 0x529E7D00\<rparr>"
  by (simp add: sha_round_def Sigma0_def Sigma1_def Ch_def Maj_def rotr_def Let_def)

lemma abc_rounds_56:
  "foldl sha_round
     \<lparr>va = 0x38CC9913, vb = 0x3EC45CDB, vc = 0xF5702FDB, vd = 0x101FD28F,
      ve = 0x54CB266B, vf = 0xE50E1B4F, vg = 0x9F4787C3, vh = 0x529E7D00\<rparr>
     [(0x748F82EE, 0xEF57B9CD), (0x78A5636F, 0xEBE6B238), (0x84C87814, 0x9FE3095E), (0x8CC70208, 0x78BC8D4B)] =
     \<lparr>va = 0xB6AE8FFF, vb = 0xFFB70472, vc = 0xC062D46F, vd = 0xFCD1887B,
      ve = 0xB21BAD3D, vf = 0x6D83BFC6, vg = 0x7E44008E, vh = 0x9B5E906C\<rparr>"
  by (simp add: sha_round_def Sigma0_def Sigma1_def Ch_def Maj_def rotr_def Let_def)

lemma abc_rounds_60:
  "foldl sha_round
     \<lparr>va = 0xB6AE8FFF, vb = 0xFFB70472, vc = 0xC062D46F, vd = 0xFCD1887B,
      ve = 0xB21BAD3D, vf = 0x6D83BFC6, vg = 0x7E44008E, vh = 0x9B5E906C\<rparr>
     [(0x90BEFFFA, 0xA43FCF15), (0xA4506CEB, 0x668B2FF8), (0xBEF9A3F7, 0xEEABA2CC), (0xC67178F2, 0x12B1EDEB)] =
     \<lparr>va = 0x506E3058, vb = 0xD39A2165, vc = 0x04D24D6C, vd = 0xB85E2CE9,
      ve = 0x5EF50F24, vf = 0xFB121210, vg = 0x948D25B6, vh = 0x961F4894\<rparr>"
  by (simp add: sha_round_def Sigma0_def Sigma1_def Ch_def Maj_def rotr_def Let_def)

lemma abc_compress:
  "compress H256
    [0x61, 0x62, 0x63, 0x80, 0x00, 0x00, 0x00, 0x00, 0x00, 0x00, 0x00, 0x00, 0x00, 0x00, 0x00, 0x00,
     0x00, 0x00, 0x00, 0x00, 0x00, 0x00, 0x00, 0x00, 0x00, 0x00, 0x00, 0x00, 0x00, 0x00, 0x00, 0x00,
     0x00, 0x00, 0x00, 0x00, 0x00, 0x00, 0x00, 0x00, 0x00, 0x00, 0x00, 0x00, 0x00, 0x00, 0x00, 0x00,
     0x00, 0x00, 0x00, 0x00, 0x00, 0x00, 0x00, 0x00, 0x00, 0x00, 0x00, 0x00, 0x00, 0x00, 0x00, 0x18] =
    [0xBA7816BF, 0x8F01CFEA, 0x414140DE, 0x5DAE2223, 0xB00361A3, 0x96177A9C, 0xB410FF61, 0xF20015AD]"
proof -
  have z: "zip K256
    [0x61626380, 0x00000000, 0x00000000, 0x00000000, 0x00000000, 0x00000000, 0x00000000, 0x00000000,
     0x00000000, 0x00000000, 0x00000000, 0x00000000, 0x00000000, 0x00000000, 0x00000000, 0x00000018,
     0x61626380, 0x000F0000, 0x7DA86405, 0x600003C6, 0x3E9D7B78, 0x0183FC00, 0x12DCBFDB, 0xE2E2C38E,
     0xC8215C1A, 0xB73679A2, 0xE5BC3909, 0x32663C5B, 0x9D209D67, 0xEC8726CB, 0x702138A4, 0xD3B7973B,
     0x93F5997F, 0x3B68BA73, 0xAFF4FFC1, 0xF10A5C62, 0x0A8B3996, 0x72AF830A, 0x9409E33E, 0x24641522,
     0x9F47BF94, 0xF0A64F5A, 0x3E246A79, 0x27333BA3, 0x0C4763F2, 0x840ABF27, 0x7A290D5D, 0x065C43DA,
     0xFB3E89CB, 0xCC7617DB, 0xB9E66C34, 0xA9993667, 0x84BADEDD, 0xC21462BC, 0x1487472C, 0xB20F7A99,
     0xEF57B9CD, 0xEBE6B238, 0x9FE3095E, 0x78BC8D4B, 0xA43FCF15, 0x668B2FF8, 0xEEABA2CC, 0x12B1EDEB] =
     [(0x428A2F98, 0x61626380), (0x71374491, 0x00000000), (0xB5C0FBCF, 0x00000000), (0xE9B5DBA5, 0x00000000)] @
     [(0x3956C25B, 0x00000000), (0x59F111F1, 0x00000000), (0x923F82A4, 0x00000000), (0xAB1C5ED5, 0x00000000)] @
     [(0xD807AA98, 0x00000000), (0x12835B01, 0x00000000), (0x243185BE, 0x00000000), (0x550C7DC3, 0x00000000)] @
     [(0x72BE5D74, 0x00000000), (0x80DEB1FE, 0x00000000), (0x9BDC06A7, 0x00000000), (0xC19BF174, 0x00000018)] @
     [(0xE49B69C1, 0x61626380), (0xEFBE4786, 0x000F0000), (0x0FC19DC6, 0x7DA86405), (0x240CA1CC, 0x600003C6)] @
     [(0x2DE92C6F, 0x3E9D7B78), (0x4A7484AA, 0x0183FC00), (0x5CB0A9DC, 0x12DCBFDB), (0x76F988DA, 0xE2E2C38E)] @
     [(0x983E5152, 0xC8215C1A), (0xA831C66D, 0xB73679A2), (0xB00327C8, 0xE5BC3909), (0xBF597FC7, 0x32663C5B)] @
     [(0xC6E00BF3, 0x9D209D67), (0xD5A79147, 0xEC8726CB), (0x06CA6351, 0x702138A4), (0x14292967, 0xD3B7973B)] @
     [(0x27B70A85, 0x93F5997F), (0x2E1B2138, 0x3B68BA73), (0x4D2C6DFC, 0xAFF4FFC1), (0x53380D13, 0xF10A5C62)] @
     [(0x650A7354, 0x0A8B3996), (0x766A0ABB, 0x72AF830A), (0x81C2C92E, 0x9409E33E), (0x92722C85, 0x24641522)] @
     [(0xA2BFE8A1, 0x9F47BF94), (0xA81A664B, 0xF0A64F5A), (0xC24B8B70, 0x3E246A79), (0xC76C51A3, 0x27333BA3)] @
     [(0xD192E819, 0x0C4763F2), (0xD6990624, 0x840ABF27), (0xF40E3585, 0x7A290D5D), (0x106AA070, 0x065C43DA)] @
     [(0x19A4C116, 0xFB3E89CB), (0x1E376C08, 0xCC7617DB), (0x2748774C, 0xB9E66C34), (0x34B0BCB5, 0xA9993667)] @
     [(0x391C0CB3, 0x84BADEDD), (0x4ED8AA4A, 0xC21462BC), (0x5B9CCA4F, 0x1487472C), (0x682E6FF3, 0xB20F7A99)] @
     [(0x748F82EE, 0xEF57B9CD), (0x78A5636F, 0xEBE6B238), (0x84C87814, 0x9FE3095E), (0x8CC70208, 0x78BC8D4B)] @
     [(0x90BEFFFA, 0xA43FCF15), (0xA4506CEB, 0x668B2FF8), (0xBEF9A3F7, 0xEEABA2CC), (0xC67178F2, 0x12B1EDEB)]"
    by (simp add: K256_def)
  have f: "foldl sha_round
     \<lparr>va = 0x6A09E667, vb = 0xBB67AE85, vc = 0x3C6EF372, vd = 0xA54FF53A,
      ve = 0x510E527F, vf = 0x9B05688C, vg = 0x1F83D9AB, vh = 0x5BE0CD19\<rparr>
     (zip K256
    [0x61626380, 0x00000000, 0x00000000, 0x00000000, 0x00000000, 0x00000000, 0x00000000, 0x00000000,
     0x00000000, 0x00000000, 0x00000000, 0x00000000, 0x00000000, 0x00000000, 0x00000000, 0x00000018,
     0x61626380, 0x000F0000, 0x7DA86405, 0x600003C6, 0x3E9D7B78, 0x0183FC00, 0x12DCBFDB, 0xE2E2C38E,
     0xC8215C1A, 0xB73679A2, 0xE5BC3909, 0x32663C5B, 0x9D209D67, 0xEC8726CB, 0x702138A4, 0xD3B7973B,
     0x93F5997F, 0x3B68BA73, 0xAFF4FFC1, 0xF10A5C62, 0x0A8B3996, 0x72AF830A, 0x9409E33E, 0x24641522,
     0x9F47BF94, 0xF0A64F5A, 0x3E246A79, 0x27333BA3, 0x0C4763F2, 0x840ABF27, 0x7A290D5D, 0x065C43DA,
     0xFB3E89CB, 0xCC7617DB, 0xB9E66C34, 0xA9993667, 0x84BADEDD, 0xC21462BC, 0x1487472C, 0xB20F7A99,
     0xEF57B9CD, 0xEBE6B238, 0x9FE3095E, 0x78BC8D4B, 0xA43FCF15, 0x668B2FF8, 0xEEABA2CC, 0x12B1EDEB]) =
     \<lparr>va = 0x506E3058, vb = 0xD39A2165, vc = 0x04D24D6C, vd = 0xB85E2CE9,
      ve = 0x5EF50F24, vf = 0xFB121210, vg = 0x948D25B6, vh = 0x961F4894\<rparr>"
    by (simp only: z foldl_append abc_rounds_0 abc_rounds_4 abc_rounds_8 abc_rounds_12 abc_rounds_16 abc_rounds_20 abc_rounds_24 abc_rounds_28 abc_rounds_32 abc_rounds_36 abc_rounds_40 abc_rounds_44 abc_rounds_48 abc_rounds_52 abc_rounds_56 abc_rounds_60)
  show ?thesis
    by (simp only: compress_def abc_words abc_schedule state_of_H256 f)
       (simp add: words_of_def H256_def)
qed

lemma abc_digest:
  "sha256 [0x61, 0x62, 0x63] =
    [0xBA, 0x78, 0x16, 0xBF, 0x8F, 0x01, 0xCF, 0xEA, 0x41, 0x41, 0x40, 0xDE, 0x5D, 0xAE, 0x22, 0x23,
     0xB0, 0x03, 0x61, 0xA3, 0x96, 0x17, 0x7A, 0x9C, 0xB4, 0x10, 0xFF, 0x61, 0xF2, 0x00, 0x15, 0xAD]"
  by (simp add: sha256_def abc_pad sha_blocks_numeral abc_compress be32_def)

lemma loc_pad:
  "sha_pad [0x32, 0x30, 0x32, 0x30, 0x31, 0x32, 0x33, 0x7C, 0x39, 0x38, 0x37, 0x36, 0x35, 0x34, 0x33, 0x32,
     0x31] =
    [0x32, 0x30, 0x32, 0x30, 0x31, 0x32, 0x33, 0x7C, 0x39, 0x38, 0x37, 0x36, 0x35, 0x34, 0x33, 0x32,
     0x31, 0x80, 0x00, 0x00, 0x00, 0x00, 0x00, 0x00, 0x00, 0x00, 0x00, 0x00, 0x00, 0x00, 0x00, 0x00,
     0x00, 0x00, 0x00, 0x00, 0x00, 0x00, 0x00, 0x00, 0x00, 0x00, 0x00, 0x00, 0x00, 0x00, 0x00, 0x00,
     0x00, 0x00, 0x00, 0x00, 0x00, 0x00, 0x00, 0x00, 0x00, 0x00, 0x00, 0x00, 0x00, 0x00, 0x00, 0x88]"
  by (simp add: sha_pad_def be64_def replicate_unfold upt_rec)

lemma loc_words:
  "be_words
    [0x32, 0x30, 0x32, 0x30, 0x31, 0x32, 0x33, 0x7C, 0x39, 0x38, 0x37, 0x36, 0x35, 0x34, 0x33, 0x32,
     0x31, 0x80, 0x00, 0x00, 0x00, 0x00, 0x00, 0x00, 0x00, 0x00, 0x00, 0x00, 0x00, 0x00, 0x00, 0x00,
     0x00, 0x00, 0x00, 0x00, 0x00, 0x00, 0x00, 0x00, 0x00, 0x00, 0x00, 0x00, 0x00, 0x00, 0x00, 0x00,
     0x00, 0x00, 0x00, 0x00, 0x00, 0x00, 0x00, 0x00, 0x00, 0x00, 0x00, 0x00, 0x00, 0x00, 0x00, 0x88] =
    [0x32303230, 0x3132337C, 0x39383736, 0x35343332, 0x31800000, 0x00000000, 0x00000000, 0x00000000,
     0x00000000, 0x00000000, 0x00000000, 0x00000000, 0x00000000, 0x00000000, 0x00000000, 0x00000088]"
  by simp

lemma loc_schedule:
  "schedule 48
    [0x32303230, 0x3132337C, 0x39383736, 0x35343332, 0x31800000, 0x00000000, 0x00000000, 0x00000000,
     0x00000000, 0x00000000, 0x00000000, 0x00000000, 0x00000000, 0x00000000, 0x00000000, 0x00000088] =
    [0x32303230, 0x3132337C, 0x39383736, 0x35343332, 0x31800000, 0x00000000, 0x00000000, 0x00000000,
     0x00000000, 0x00000000, 0x00000000, 0x00000000, 0x00000000, 0x00000000, 0x00000000, 0x00000088,
     0xA4CB6075, 0x98202C42, 0x8355EEA7, 0x4F1656B1, 0x7C27E4BB, 0xE19D4BFC, 0x0ED5D8F6, 0xB184EC24,
     0xEF86A008, 0x6F109E70, 0xD354E24C, 0xD915E308, 0xCEF872F4, 0x5CA90BC6, 0xF8BE2CF3, 0xBBE1040F,
     0x84DA8F80, 0x32E3D837, 0x714DEBC2, 0x3572FDD7, 0xD865C205, 0x97B22CB1, 0x8885E390, 0x2E7873E8,
     0x3AA3159F, 0xD3401879, 0x638D54C5, 0xAD8275E0, 0x2D6B82CC, 0xCD705B2A, 0x21737744, 0xCFBA4287,
     0xCB91E051, 0xEFCDD8B2, 0x02921181, 0x1A905FE9, 0xEBBB66F1, 0x261A4396, 0x0146418E, 0x60018FC7,
     0x0338775B, 0x9F5D6F2F, 0xFCF745CB, 0x30D873F5, 0xF8E7DB25, 0x57FC257D, 0x1F0750DF, 0x2BE92518]"
  by (simp add: schedule_numeral sigma0_def sigma1_def rotr_def)

lemma loc_rounds_0:
  "foldl sha_round
     \<lparr>va = 0x6A09E667, vb = 0xBB67AE85, vc = 0x3C6EF372, vd = 0xA54FF53A,
      ve = 0x510E527F, vf = 0x9B05688C, vg = 0x1F83D9AB, vh = 0x5BE0CD19\<rparr>
     [(0x428A2F98, 0x32303230), (0x71374491, 0x3132337C), (0xB5C0FBCF, 0x39383736), (0xE9B5DBA5, 0x35343332)] =
     \<lparr>va = 0x474E2EE7, vb = 0xD96641AA, vc = 0x652BFA91, vd = 0x2E38BA7D,
      ve = 0x22232A58, vf = 0x0478634B, vg = 0xFCE293BC, vh = 0xCAF814D2\<rparr>"
  by (simp add: sha_round_def Sigma0_def Sigma1_def Ch_def Maj_def rotr_def Let_def)

lemma loc_rounds_4:
  "foldl sha_round
     \<lparr>va = 0x474E2EE7, vb = 0xD96641AA, vc = 0x652BFA91, vd = 0x2E38BA7D,
      ve = 0x22232A58, vf = 0x0478634B, vg = 0xFCE293BC, vh = 0xCAF814D2\<rparr>
     [(0x3956C25B, 0x31800000), (0x59F111F1, 0x00000000), (0x923F82A4, 0x00000000), (0xAB1C5ED5, 0x00000000)] =
     \<lparr>va = 0xE5FFE2A2, vb = 0x5A81C10B, vc = 0x7081278D, vd = 0x308A076E,
      ve = 0xE2CE8154, vf = 0x5E87E29E, vg = 0xE5105CE7, vh = 0x7B022A73\<rparr>"
  by (simp add: sha_round_def Sigma0_def Sigma1_def Ch_def Maj_def rotr_def Let_def)

lemma loc_rounds_8:
  "foldl sha_round
     \<lparr>va = 0xE5FFE2A2, vb = 0x5A81C10B, vc = 0x7081278D, vd = 0x308A076E,
      ve = 0xE2CE8154, vf = 0x5E87E29E, vg = 0xE5105CE7, vh = 0x7B022A73\<rparr>
     [(0xD807AA98, 0x00000000), (0x12835B01, 0x00000000), (0x243185BE, 0x00000000), (0x550C7DC3, 0x00000000)] =
     \<lparr>va = 0x4EC2A970, vb = 0x3C829A4A, vc = 0x24A5CE14, vd = 0x7D5CBBB1,
      ve = 0xA125878E, vf = 0x42566A6C, vg = 0x27171002, vh = 0xE98282D4\<rparr>"
  by (simp add: sha_round_def Sigma0_def Sigma1_def Ch_def Maj_def rotr_def Let_def)

lemma loc_rounds_12:
  "foldl sha_round
     \<lparr>va = 0x4EC2A970, vb = 0x3C829A4A, vc = 0x24A5CE14, vd = 0x7D5CBBB1,
      ve = 0xA125878E, vf = 0x42566A6C, vg = 0x27171002, vh = 0xE98282D4\<rparr>
     [(0x72BE5D74, 0x00000000), (0x80DEB1FE, 0x00000000), (0x9BDC06A7, 0x00000000), (0xC19BF174, 0x00000088)] =
     \<lparr>va = 0x400D9189, vb = 0x62539EDB, vc = 0x16BE6B6F, vd = 0x3B041014,
      ve = 0xFC8587F7, vf = 0x18D57C3F, vg = 0x5EC1146A, vh = 0x39472403\<rparr>"
  by (simp add: sha_round_def Sigma0_def Sigma1_def Ch_def Maj_def rotr_def Let_def)

lemma loc_rounds_16:
  "foldl sha_round
     \<lparr>va = 0x400D9189, vb = 0x62539EDB, vc = 0x16BE6B6F, vd = 0x3B041014,
      ve = 0xFC8587F7, vf = 0x18D57C3F, vg = 0x5EC1146A, vh = 0x39472403\<rparr>
     [(0xE49B69C1, 0xA4CB6075), (0xEFBE4786, 0x98202C42), (0x0FC19DC6, 0x8355EEA7), (0x240CA1CC, 0x4F1656B1)] =
     \<lparr>va = 0xAE92CF32, vb = 0xD64900CE, vc = 0x2F5E8203, vd = 0x6D705CA2,
      ve = 0xE7609717, vf = 0x2979385D, vg = 0x268D5BC8, vh = 0x7C458FDD\<rparr>"
  by (simp add: sha_round_def Sigma0_def Sigma1_def Ch_def Maj_def rotr_def Let_def)

lemma loc_rounds_20:
  "foldl sha_round
     \<lparr>va = 0xAE92CF32, vb = 0xD64900CE, vc = 0x2F5E8203, vd = 0x6D705CA2,
      ve = 0xE7609717, vf = 0x2979385D, vg = 0x268D5BC8, vh = 0x7C458FDD\<rparr>
     [(0x2DE92C6F, 0x7C27E4BB), (0x4A7484AA, 0xE19D4BFC), (0x5CB0A9DC, 0x0ED5D8F6), (0x76F988DA, 0xB184EC24)] =
     \<lparr>va = 0x3619CF8E, vb = 0xB920A450, vc = 0x88560A26, vd = 0x9CD66F83,
      ve = 0xBDF9CDC9, vf = 0x5789FBE4, vg = 0x564AC987, vh = 0xC2DF3C43\<rparr>"
  by (simp add: sha_round_def Sigma0_def Sigma1_def Ch_def Maj_def rotr_def Let_def)

lemma loc_rounds_24:
  "foldl sha_round
     \<lparr>va = 0x3619CF8E, vb = 0xB920A450, vc = 0x88560A26, vd = 0x9CD66F83,
      ve = 0xBDF9CDC9, vf = 0x5789FBE4, vg = 0x564AC987, vh = 0xC2DF3C43\<rparr>
     [(0x983E5152, 0xEF86A008), (0xA831C66D, 0x6F109E70), (0xB00327C8, 0xD354E24C), (0xBF597FC7, 0xD915E308)] =
     \<lparr>va = 0x9ECA9427, vb = 0x6388506D, vc = 0xF2BC37FF, vd = 0x54313E2E,
      ve = 0x67636F6F, vf = 0xF2E04D3B, vg = 0xA65A3CC5, vh = 0xA22D23B6\<rparr>"
  by (simp add: sha_round_def Sigma0_def Sigma1_def Ch_def Maj_def rotr_def Let_def)

lemma loc_rounds_28:
  "foldl sha_round
     \<lparr>va = 0x9ECA9427, vb = 0x6388506D, vc = 0xF2BC37FF, vd = 0x54313E2E,
      ve = 0x67636F6F, vf = 0xF2E04D3B, vg = 0xA65A3CC5, vh = 0xA22D23B6\<rparr>
     [(0xC6E00BF3, 0xCEF872F4), (0xD5A79147, 0x5CA90BC6), (0x06CA6351, 0xF8BE2CF3), (0x14292967, 0xBBE1040F)] =
     \<lparr>va = 0xD504963A, vb = 0x55204DAF, vc = 0x5682A3FE, vd = 0x5BABB840,
      ve = 0xE3287936, vf = 0xD9400806, vg = 0x73AB1975, vh = 0x507614D9\<rparr>"
  by (simp add: sha_round_def Sigma0_def Sigma1_def Ch_def Maj_def rotr_def Let_def)

lemma loc_rounds_32:
  "foldl sha_round
     \<lparr>va = 0xD504963A, vb = 0x55204DAF, vc = 0x5682A3FE, vd = 0x5BABB840,
      ve = 0xE3287936, vf = 0xD9400806, vg = 0x73AB1975, vh = 0x507614D9\<rparr>
     [(0x27B70A85, 0x84DA8F80), (0x2E1B2138, 0x32E3D837), (0x4D2C6DFC, 0x714DEBC2), (0x53380D13, 0x3572FDD7)] =
     \<lparr>va = 0xC7F856ED, vb = 0x6E09BCEF, vc = 0x452312E9, vd = 0xA3C7057B,
      ve = 0x1BEF356E, vf = 0xB3D9AB6D, vg = 0xE7687FC3, vh = 0x93A2CEFF\<rparr>"
  by (simp add: sha_round_def Sigma0_def Sigma1_def Ch_def Maj_def rotr_def Let_def)

lemma loc_rounds_36:
  "foldl sha_round
     \<lparr>va = 0xC7F856ED, vb = 0x6E09BCEF, vc = 0x452312E9, vd = 0xA3C7057B,
      ve = 0x1BEF356E, vf = 0xB3D9AB6D, vg = 0xE7687FC3, vh = 0x93A2CEFF\<rparr>
     [(0x650A7354, 0xD865C205), (0x766A0ABB, 0x97B22CB1), (0x81C2C92E, 0x8885E390), (0x92722C85, 0x2E7873E8)] =
     \<lparr>va = 0x170F5686, vb = 0xD2249BF8, vc = 0x37B92A23, vd = 0x1A079AD6,
      ve = 0x53C1BDEF, vf = 0xB015C261, vg = 0xE0782F3C, vh = 0x4ED9EBFE\<rparr>"
  by (simp add: sha_round_def Sigma0_def Sigma1_def Ch_def Maj_def rotr_def Let_def)

lemma loc_rounds_40:
  "foldl sha_round
     \<lparr>va = 0x170F5686, vb = 0xD2249BF8, vc = 0x37B92A23, vd = 0x1A079AD6,
      ve = 0x53C1BDEF, vf = 0xB015C261, vg = 0xE0782F3C, vh = 0x4ED9EBFE\<rparr>
     [(0xA2BFE8A1, 0x3AA3159F), (0xA81A664B, 0xD3401879), (0xC24B8B70, 0x638D54C5), (0xC76C51A3, 0xAD8275E0)] =
     \<lparr>va = 0x98CDAAE9, vb = 0xAC10E6E0, vc = 0xE3128620, vd = 0xE0C88641,
      ve = 0x70319F80, vf = 0x574FC248, vg = 0xE09AF92C, vh = 0xD6F990EE\<rparr>"
  by (simp add: sha_round_def Sigma0_def Sigma1_def Ch_def Maj_def rotr_def Let_def)

lemma loc_rounds_44:
  "foldl sha_round
     \<lparr>va = 0x98CDAAE9, vb = 0xAC10E6E0, vc = 0xE3128620, vd = 0xE0C88641,
      ve = 0x70319F80, vf = 0x574FC248, vg = 0xE09AF92C, vh = 0xD6F990EE\<rparr>
     [(0xD192E819, 0x2D6B82CC), (0xD6990624, 0xCD705B2A), (0xF40E3585, 0x21737744), (0x106AA070, 0xCFBA4287)] =
     \<lparr>va = 0x8830D629, vb = 0x7D35C4D9, vc = 0x47AAAA63, vd = 0x3F699008,
      ve = 0xF33F035D, vf = 0xE103E67D, vg = 0x4497CDE8, vh = 0x704D64B5\<rparr>"
  by (simp add: sha_round_def Sigma0_def Sigma1_def Ch_def Maj_def rotr_def Let_def)

lemma loc_rounds_48:
  "foldl sha_round
     \<lparr>va = 0x8830D629, vb = 0x7D35C4D9, vc = 0x47AAAA63, vd = 0x3F699008,
      ve = 0xF33F035D, vf = 0xE103E67D, vg = 0x4497CDE8, vh = 0x704D64B5\<rparr>
     [(0x19A4C116, 0xCB91E051), (0x1E376C08, 0xEFCDD8B2), (0x2748774C, 0x02921181), (0x34B0BCB5, 0x1A905FE9)] =
     \<lparr>va = 0x80208FD0, vb = 0xFA39E5E4, vc = 0x888F46B0, vd = 0x1C44A2C2,
      ve = 0x7A0543BB, vf = 0xC4AD8C29, vg = 0x307A6766, vh = 0xFE649A35\<rparr>"
  by (simp add: sha_round_def Sigma0_def Sigma1_def Ch_def Maj_def rotr_def Let_def)

lemma loc_rounds_52:
  "foldl sha_round
     \<lparr>va = 0x80208FD0, vb = 0xFA39E5E4, vc = 0x888F46B0, vd = 0x1C44A2C2,
      ve = 0x7A0543BB, vf = 0xC4AD8C29, vg = 0x307A6766, vh = 0xFE649A35\<rparr>
     [(0x391C0CB3, 0xEBBB66F1), (0x4ED8AA4A, 0x261A4396), (0x5B9CCA4F, 0x0146418E), (0x682E6FF3, 0x60018FC7)] =
     \<lparr>va = 0x7AC4D9F2, vb = 0xA2909624, vc = 0x570AC309, vd = 0x60BEE341,
      ve = 0xBC71033A, vf = 0xF61B8AFF, vg = 0x45B76954, vh = 0x18265D23\<rparr>"
  by (simp add: sha_round_def Sigma0_def Sigma1_def Ch_def Maj_def rotr_def Let_def)

lemma loc_rounds_56:
  "foldl sha_round
     \<lparr>va = 0x7AC4D9F2, vb = 0xA2909624, vc = 0x570AC309, vd = 0x60BEE341,
      ve = 0xBC71033A, vf = 0xF61B8AFF, vg = 0x45B76954, vh = 0x18265D23\<rparr>
     [(0x748F82EE, 0x0338775B), (0x78A5636F, 0x9F5D6F2F), (0x84C87814, 0xFCF745CB), (0x8CC70208, 0x30D873F5)] =
     \<lparr>va = 0x5AD76640, vb = 0xD5AA86F4, vc = 0x9DCA10EA, vd = 0xEF73962D,
      ve = 0x4ED9C987, vf = 0x7012CC11, vg = 0x05191425, vh = 0x9B6C7C9D\<rparr>"
  by (simp add: sha_round_def Sigma0_def Sigma1_def Ch_def Maj_def rotr_def Let_def)

lemma loc_rounds_60:
  "foldl sha_round
     \<lparr>va = 0x5AD76640, vb = 0xD5AA86F4, vc = 0x9DCA10EA, vd = 0xEF73962D,
      ve = 0x4ED9C987, vf = 0x7012CC11, vg = 0x05191425, vh = 0x9B6C7C9D\<rparr>
     [(0x90BEFFFA, 0xF8E7DB25), (0xA4506CEB, 0x57FC257D), (0xBEF9A3F7, 0x1F0750DF), (0xC67178F2, 0x2BE92518)] =
     \<lparr>va = 0xF87D1CEE, vb = 0xB93F26D6, vc = 0x0D57D3FB, vd = 0xFE52C8B5,
      ve = 0x319B658F, vf = 0x2CCF7864, vg = 0x5B3586AF, vh = 0x96CE49C2\<rparr>"
  by (simp add: sha_round_def Sigma0_def Sigma1_def Ch_def Maj_def rotr_def Let_def)

lemma loc_compress:
  "compress H256
    [0x32, 0x30, 0x32, 0x30, 0x31, 0x32, 0x33, 0x7C, 0x39, 0x38, 0x37, 0x36, 0x35, 0x34, 0x33, 0x32,
     0x31, 0x80, 0x00, 0x00, 0x00, 0x00, 0x00, 0x00, 0x00, 0x00, 0x00, 0x00, 0x00, 0x00, 0x00, 0x00,
     0x00, 0x00, 0x00, 0x00, 0x00, 0x00, 0x00, 0x00, 0x00, 0x00, 0x00, 0x00, 0x00, 0x00, 0x00, 0x00,
     0x00, 0x00, 0x00, 0x00, 0x00, 0x00, 0x00, 0x00, 0x00, 0x00, 0x00, 0x00, 0x00, 0x00, 0x00, 0x88] =
    [0x62870355, 0x74A6D55B, 0x49C6C76D, 0xA3A2BDEF, 0x82A9B80E, 0xC7D4E0F0, 0x7AB9605A, 0xF2AF16DB]"
proof -
  have z: "zip K256
    [0x32303230, 0x3132337C, 0x39383736, 0x35343332, 0x31800000, 0x00000000, 0x00000000, 0x00000000,
     0x00000000, 0x00000000, 0x00000000, 0x00000000, 0x00000000, 0x00000000, 0x00000000, 0x00000088,
     0xA4CB6075, 0x98202C42, 0x8355EEA7, 0x4F1656B1, 0x7C27E4BB, 0xE19D4BFC, 0x0ED5D8F6, 0xB184EC24,
     0xEF86A008, 0x6F109E70, 0xD354E24C, 0xD915E308, 0xCEF872F4, 0x5CA90BC6, 0xF8BE2CF3, 0xBBE1040F,
     0x84DA8F80, 0x32E3D837, 0x714DEBC2, 0x3572FDD7, 0xD865C205, 0x97B22CB1, 0x8885E390, 0x2E7873E8,
     0x3AA3159F, 0xD3401879, 0x638D54C5, 0xAD8275E0, 0x2D6B82CC, 0xCD705B2A, 0x21737744, 0xCFBA4287,
     0xCB91E051, 0xEFCDD8B2, 0x02921181, 0x1A905FE9, 0xEBBB66F1, 0x261A4396, 0x0146418E, 0x60018FC7,
     0x0338775B, 0x9F5D6F2F, 0xFCF745CB, 0x30D873F5, 0xF8E7DB25, 0x57FC257D, 0x1F0750DF, 0x2BE92518] =
     [(0x428A2F98, 0x32303230), (0x71374491, 0x3132337C), (0xB5C0FBCF, 0x39383736), (0xE9B5DBA5, 0x35343332)] @
     [(0x3956C25B, 0x31800000), (0x59F111F1, 0x00000000), (0x923F82A4, 0x00000000), (0xAB1C5ED5, 0x00000000)] @
     [(0xD807AA98, 0x00000000), (0x12835B01, 0x00000000), (0x243185BE, 0x00000000), (0x550C7DC3, 0x00000000)] @
     [(0x72BE5D74, 0x00000000), (0x80DEB1FE, 0x00000000), (0x9BDC06A7, 0x00000000), (0xC19BF174, 0x00000088)] @
     [(0xE49B69C1, 0xA4CB6075), (0xEFBE4786, 0x98202C42), (0x0FC19DC6, 0x8355EEA7), (0x240CA1CC, 0x4F1656B1)] @
     [(0x2DE92C6F, 0x7C27E4BB), (0x4A7484AA, 0xE19D4BFC), (0x5CB0A9DC, 0x0ED5D8F6), (0x76F988DA, 0xB184EC24)] @
     [(0x983E5152, 0xEF86A008), (0xA831C66D, 0x6F109E70), (0xB00327C8, 0xD354E24C), (0xBF597FC7, 0xD915E308)] @
     [(0xC6E00BF3, 0xCEF872F4), (0xD5A79147, 0x5CA90BC6), (0x06CA6351, 0xF8BE2CF3), (0x14292967, 0xBBE1040F)] @
     [(0x27B70A85, 0x84DA8F80), (0x2E1B2138, 0x32E3D837), (0x4D2C6DFC, 0x714DEBC2), (0x53380D13, 0x3572FDD7)] @
     [(0x650A7354, 0xD865C205), (0x766A0ABB, 0x97B22CB1), (0x81C2C92E, 0x8885E390), (0x92722C85, 0x2E7873E8)] @
     [(0xA2BFE8A1, 0x3AA3159F), (0xA81A664B, 0xD3401879), (0xC24B8B70, 0x638D54C5), (0xC76C51A3, 0xAD8275E0)] @
     [(0xD192E819, 0x2D6B82CC), (0xD6990624, 0xCD705B2A), (0xF40E3585, 0x21737744), (0x106AA070, 0xCFBA4287)] @
     [(0x19A4C116, 0xCB91E051), (0x1E376C08, 0xEFCDD8B2), (0x2748774C, 0x02921181), (0x34B0BCB5, 0x1A905FE9)] @
     [(0x391C0CB3, 0xEBBB66F1), (0x4ED8AA4A, 0x261A4396), (0x5B9CCA4F, 0x0146418E), (0x682E6FF3, 0x60018FC7)] @
     [(0x748F82EE, 0x0338775B), (0x78A5636F, 0x9F5D6F2F), (0x84C87814, 0xFCF745CB), (0x8CC70208, 0x30D873F5)] @
     [(0x90BEFFFA, 0xF8E7DB25), (0xA4506CEB, 0x57FC257D), (0xBEF9A3F7, 0x1F0750DF), (0xC67178F2, 0x2BE92518)]"
    by (simp add: K256_def)
  have f: "foldl sha_round
     \<lparr>va = 0x6A09E667, vb = 0xBB67AE85, vc = 0x3C6EF372, vd = 0xA54FF53A,
      ve = 0x510E527F, vf = 0x9B05688C, vg = 0x1F83D9AB, vh = 0x5BE0CD19\<rparr>
     (zip K256
    [0x32303230, 0x3132337C, 0x39383736, 0x35343332, 0x31800000, 0x00000000, 0x00000000, 0x00000000,
     0x00000000, 0x00000000, 0x00000000, 0x00000000, 0x00000000, 0x00000000, 0x00000000, 0x00000088,
     0xA4CB6075, 0x98202C42, 0x8355EEA7, 0x4F1656B1, 0x7C27E4BB, 0xE19D4BFC, 0x0ED5D8F6, 0xB184EC24,
     0xEF86A008, 0x6F109E70, 0xD354E24C, 0xD915E308, 0xCEF872F4, 0x5CA90BC6, 0xF8BE2CF3, 0xBBE1040F,
     0x84DA8F80, 0x32E3D837, 0x714DEBC2, 0x3572FDD7, 0xD865C205, 0x97B22CB1, 0x8885E390, 0x2E7873E8,
     0x3AA3159F, 0xD3401879, 0x638D54C5, 0xAD8275E0, 0x2D6B82CC, 0xCD705B2A, 0x21737744, 0xCFBA4287,
     0xCB91E051, 0xEFCDD8B2, 0x02921181, 0x1A905FE9, 0xEBBB66F1, 0x261A4396, 0x0146418E, 0x60018FC7,
     0x0338775B, 0x9F5D6F2F, 0xFCF745CB, 0x30D873F5, 0xF8E7DB25, 0x57FC257D, 0x1F0750DF, 0x2BE92518]) =
     \<lparr>va = 0xF87D1CEE, vb = 0xB93F26D6, vc = 0x0D57D3FB, vd = 0xFE52C8B5,
      ve = 0x319B658F, vf = 0x2CCF7864, vg = 0x5B3586AF, vh = 0x96CE49C2\<rparr>"
    by (simp only: z foldl_append loc_rounds_0 loc_rounds_4 loc_rounds_8 loc_rounds_12 loc_rounds_16 loc_rounds_20 loc_rounds_24 loc_rounds_28 loc_rounds_32 loc_rounds_36 loc_rounds_40 loc_rounds_44 loc_rounds_48 loc_rounds_52 loc_rounds_56 loc_rounds_60)
  show ?thesis
    by (simp only: compress_def loc_words loc_schedule state_of_H256 f)
       (simp add: words_of_def H256_def)
qed

lemma loc_digest:
  "sha256 [0x32, 0x30, 0x32, 0x30, 0x31, 0x32, 0x33, 0x7C, 0x39, 0x38, 0x37, 0x36, 0x35, 0x34, 0x33, 0x32,
     0x31] =
    [0x62, 0x87, 0x03, 0x55, 0x74, 0xA6, 0xD5, 0x5B, 0x49, 0xC6, 0xC7, 0x6D, 0xA3, 0xA2, 0xBD, 0xEF,
     0x82, 0xA9, 0xB8, 0x0E, 0xC7, 0xD4, 0xE0, 0xF0, 0x7A, 0xB9, 0x60, 0x5A, 0xF2, 0xAF, 0x16, 0xDB]"
  by (simp add: sha256_def loc_pad sha_blocks_numeral loc_compress be32_def)

lemma idx_pad:
  "sha_pad [0x32, 0x30, 0x32, 0x30, 0x31, 0x32, 0x33] =
    [0x32, 0x30, 0x32, 0x30, 0x31, 0x32, 0x33, 0x80, 0x00, 0x00, 0x00, 0x00, 0x00, 0x00, 0x00, 0x00,
     0x00, 0x00, 0x00, 0x00, 0x00, 0x00, 0x00, 0x00, 0x00, 0x00, 0x00, 0x00, 0x00, 0x00, 0x00, 0x00,
     0x00, 0x00, 0x00, 0x00, 0x00, 0x00, 0x00, 0x00, 0x00, 0x00, 0x00, 0x00, 0x00, 0x00, 0x00, 0x00,
     0x00, 0x00, 0x00, 0x00, 0x00, 0x00, 0x00, 0x00, 0x00, 0x00, 0x00, 0x00, 0x00, 0x00, 0x00, 0x38]"
  by (simp add: sha_pad_def be64_def replicate_unfold upt_rec)

lemma idx_words:
  "be_words
    [0x32, 0x30, 0x32, 0x30, 0x31, 0x32, 0x33, 0x80, 0x00, 0x00, 0x00, 0x00, 0x00, 0x00, 0x00, 0x00,
     0x00, 0x00, 0x00, 0x00, 0x00, 0x00, 0x00, 0x00, 0x00, 0x00, 0x00, 0x00, 0x00, 0x00, 0x00, 0x00,
     0x00, 0x00, 0x00, 0x00, 0x00, 0x00, 0x00, 0x00, 0x00, 0x00, 0x00, 0x00, 0x00, 0x00, 0x00, 0x00,
     0x00, 0x00, 0x00, 0x00, 0x00, 0x00, 0x00, 0x00, 0x00, 0x00, 0x00, 0x00, 0x00, 0x00, 0x00, 0x38] =
    [0x32303230, 0x31323380, 0x00000000, 0x00000000, 0x00000000, 0x00000000, 0x00000000, 0x00000000,
     0x00000000, 0x00000000, 0x00000000, 0x00000000, 0x00000000, 0x00000000, 0x00000000, 0x00000038]"
  by simp

lemma idx_schedule:
  "schedule 48
    [0x32303230, 0x31323380, 0x00000000, 0x00000000, 0x00000000, 0x00000000, 0x00000000, 0x00000000,
     0x00000000, 0x00000000, 0x00000000, 0x00000000, 0x00000000, 0x00000000, 0x00000000, 0x00000038] =
    [0x32303230, 0x31323380, 0x00000000, 0x00000000, 0x00000000, 0x00000000, 0x00000000, 0x00000000,
     0x00000000, 0x00000000, 0x00000000, 0x00000000, 0x00000000, 0x00000000, 0x00000000, 0x00000038,
     0xBCD4608B, 0x314D3380, 0xBC7B9CE8, 0x3FBC4DC3, 0xBDC65755, 0xAF56173A, 0xE16F1906, 0x8626384F,
     0xA0E92ADC, 0x978B5741, 0xEFDA4BE6, 0x7F337336, 0x1C0A73BE, 0xB95155A9, 0x6DE4076E, 0x39FAB6D0,
     0x224C6A5F, 0x50B1908F, 0x8714355F, 0x7F1F58E0, 0xF8B8687F, 0x3C5C9BAB, 0x56536817, 0x6F0E7065,
     0x0EC5AA48, 0x57A2ACB7, 0x8F3DF3E2, 0x5F1B62D5, 0xB148CEB8, 0xBD895410, 0x6692425A, 0x6A006944,
     0x5403773D, 0xBC3B0BCF, 0xD4C162FA, 0x1012D2E1, 0xCA72A284, 0xD47AAB0A, 0x209ABB69, 0xBF3A5366,
     0xA5490E2E, 0x3855BCF3, 0xC034A86A, 0xE85D97C0, 0xAA99C640, 0x7FD08324, 0xA15493A8, 0x0F19F8AD]"
  by (simp add: schedule_numeral sigma0_def sigma1_def rotr_def)

lemma idx_rounds_0:
  "foldl sha_round
     \<lparr>va = 0x6A09E667, vb = 0xBB67AE85, vc = 0x3C6EF372, vd = 0xA54FF53A,
      ve = 0x510E527F, vf = 0x9B05688C, vg = 0x1F83D9AB, vh = 0x5BE0CD19\<rparr>
     [(0x428A2F98, 0x32303230), (0x71374491, 0x31323380), (0xB5C0FBCF, 0x00000000), (0xE9B5DBA5, 0x00000000)] =
     \<lparr>va = 0xBF9DDC4A, vb = 0xB58E28A0, vc = 0x652BFA95, vd = 0x2E38BA7D,
      ve = 0xB3B8636D, vf = 0xE0C05A42, vg = 0xFCE293C0, vh = 0xCAF814D2\<rparr>"
  by (simp add: sha_round_def Sigma0_def Sigma1_def Ch_def Maj_def rotr_def Let_def)

lemma idx_rounds_4:
  "foldl sha_round
     \<lparr>va = 0xBF9DDC4A, vb = 0xB58E28A0, vc = 0x652BFA95, vd = 0x2E38BA7D,
      ve = 0xB3B8636D, vf = 0xE0C05A42, vg = 0xFCE293C0, vh = 0xCAF814D2\<rparr>
     [(0x3956C25B, 0x00000000), (0x59F111F1, 0x00000000), (0x923F82A4, 0x00000000), (0xAB1C5ED5, 0x00000000)] =
     \<lparr>va = 0x96237F1E, vb = 0xBE6D296C, vc = 0x2DEB2843, vd = 0xE8AE63C7,
      ve = 0xD8772656, vf = 0xA0893FCB, vg = 0x77ECF7F6, vh = 0x269384C2\<rparr>"
  by (simp add: sha_round_def Sigma0_def Sigma1_def Ch_def Maj_def rotr_def Let_def)

lemma idx_rounds_8:
  "foldl sha_round
     \<lparr>va = 0x96237F1E, vb = 0xBE6D296C, vc = 0x2DEB2843, vd = 0xE8AE63C7,
      ve = 0xD8772656, vf = 0xA0893FCB, vg = 0x77ECF7F6, vh = 0x269384C2\<rparr>
     [(0xD807AA98, 0x00000000), (0x12835B01, 0x00000000), (0x243185BE, 0x00000000), (0x550C7DC3, 0x00000000)] =
     \<lparr>va = 0x3AEDB2DE, vb = 0x73A966FA, vc = 0x5C0006D9, vd = 0xDF3A5E1F,
      ve = 0x6346BDE6, vf = 0xF222AD81, vg = 0xFD779ED5, vh = 0x38FD8414\<rparr>"
  by (simp add: sha_round_def Sigma0_def Sigma1_def Ch_def Maj_def rotr_def Let_def)

lemma idx_rounds_12:
  "foldl sha_round
     \<lparr>va = 0x3AEDB2DE, vb = 0x73A966FA, vc = 0x5C0006D9, vd = 0xDF3A5E1F,
      ve = 0x6346BDE6, vf = 0xF222AD81, vg = 0xFD779ED5, vh = 0x38FD8414\<rparr>
     [(0x72BE5D74, 0x00000000), (0x80DEB1FE, 0x00000000), (0x9BDC06A7, 0x00000000), (0xC19BF174, 0x00000038)] =
     \<lparr>va = 0xC229F66A, vb = 0x6230DF25, vc = 0xC71C519F, vd = 0x5939FC35,
      ve = 0x5703184C, vf = 0x6E1D01E7, vg = 0x575DFDD4, vh = 0x0F497049\<rparr>"
  by (simp add: sha_round_def Sigma0_def Sigma1_def Ch_def Maj_def rotr_def Let_def)

lemma idx_rounds_16:
  "foldl sha_round
     \<lparr>va = 0xC229F66A, vb = 0x6230DF25, vc = 0xC71C519F, vd = 0x5939FC35,
      ve = 0x5703184C, vf = 0x6E1D01E7, vg = 0x575DFDD4, vh = 0x0F497049\<rparr>
     [(0xE49B69C1, 0xBCD4608B), (0xEFBE4786, 0x314D3380), (0x0FC19DC6, 0xBC7B9CE8), (0x240CA1CC, 0x3FBC4DC3)] =
     \<lparr>va = 0xE2394A73, vb = 0x72FE7C32, vc = 0x3E614288, vd = 0x16B0899E,
      ve = 0xE896370F, vf = 0x203A157C, vg = 0xB7D1C540, vh = 0x09ABE6C7\<rparr>"
  by (simp add: sha_round_def Sigma0_def Sigma1_def Ch_def Maj_def rotr_def Let_def)

lemma idx_rounds_20:
  "foldl sha_round
     \<lparr>va = 0xE2394A73, vb = 0x72FE7C32, vc = 0x3E614288, vd = 0x16B0899E,
      ve = 0xE896370F, vf = 0x203A157C, vg = 0xB7D1C540, vh = 0x09ABE6C7\<rparr>
     [(0x2DE92C6F, 0xBDC65755), (0x4A7484AA, 0xAF56173A), (0x5CB0A9DC, 0xE16F1906), (0x76F988DA, 0x8626384F)] =
     \<lparr>va = 0xA229EBA1, vb = 0x0EB481B6, vc = 0x7FE055E9, vd = 0x82A5E4D5,
      ve = 0x19A2E22C, vf = 0x2D2D6970, vg = 0x09EDF1EE, vh = 0xD8A49763\<rparr>"
  by (simp add: sha_round_def Sigma0_def Sigma1_def Ch_def Maj_def rotr_def Let_def)

lemma idx_rounds_24:
  "foldl sha_round
     \<lparr>va = 0xA229EBA1, vb = 0x0EB481B6, vc = 0x7FE055E9, vd = 0x82A5E4D5,
      ve = 0x19A2E22C, vf = 0x2D2D6970, vg = 0x09EDF1EE, vh = 0xD8A49763\<rparr>
     [(0x983E5152, 0xA0E92ADC), (0xA831C66D, 0x978B5741), (0xB00327C8, 0xEFDA4BE6), (0xBF597FC7, 0x7F337336)] =
     \<lparr>va = 0xCB54EDE6, vb = 0x0370CB53, vc = 0x0A2F32B4, vd = 0x0098DE1B,
      ve = 0x11DC9A15, vf = 0xE41A045C, vg = 0x33D05DA8, vh = 0xC2741420\<rparr>"
  by (simp add: sha_round_def Sigma0_def Sigma1_def Ch_def Maj_def rotr_def Let_def)

lemma idx_rounds_28:
  "foldl sha_round
     \<lparr>va = 0xCB54EDE6, vb = 0x0370CB53, vc = 0x0A2F32B4, vd = 0x0098DE1B,
      ve = 0x11DC9A15, vf = 0xE41A045C, vg = 0x33D05DA8, vh = 0xC2741420\<rparr>
     [(0xC6E00BF3, 0x1C0A73BE), (0xD5A79147, 0xB95155A9), (0x06CA6351, 0x6DE4076E), (0x14292967, 0x39FAB6D0)] =
     \<lparr>va = 0xE50193D4, vb = 0x30590C69, vc = 0x779D1E98, vd = 0x59E903E9,
      ve = 0xF30F0DBE, vf = 0x3A8E2D44, vg = 0x491C5A94, vh = 0xC0B7FB1B\<rparr>"
  by (simp add: sha_round_def Sigma0_def Sigma1_def Ch_def Maj_def rotr_def Let_def)

lemma idx_rounds_32:
  "foldl sha_round
     \<lparr>va = 0xE50193D4, vb = 0x30590C69, vc = 0x779D1E98, vd = 0x59E903E9,
      ve = 0xF30F0DBE, vf = 0x3A8E2D44, vg = 0x491C5A94, vh = 0xC0B7FB1B\<rparr>
     [(0x27B70A85, 0x224C6A5F), (0x2E1B2138, 0x50B1908F), (0x4D2C6DFC, 0x8714355F), (0x53380D13, 0x7F1F58E0)] =
     \<lparr>va = 0x2CB142D8, vb = 0x6026B6CA, vc = 0x9915A6D3, vd = 0x272F8FF6,
      ve = 0x3C09AAD3, vf = 0x65374BE0, vg = 0xA364335A, vh = 0x6A57559A\<rparr>"
  by (simp add: sha_round_def Sigma0_def Sigma1_def Ch_def Maj_def rotr_def Let_def)

lemma idx_rounds_36:
  "foldl sha_round
     \<lparr>va = 0x2CB142D8, vb = 0x6026B6CA, vc = 0x9915A6D3, vd = 0x272F8FF6,
      ve = 0x3C09AAD3, vf = 0x65374BE0, vg = 0xA364335A, vh = 0x6A57559A\<rparr>
     [(0x650A7354, 0xF8B8687F), (0x766A0ABB, 0x3C5C9BAB), (0x81C2C92E, 0x56536817), (0x92722C85, 0x6F0E7065)] =
     \<lparr>va = 0x0F4A0AB0, vb = 0x86AC0990, vc = 0x3AF20DC4, vd = 0x82DE179D,
      ve = 0xDBF3CAD6, vf = 0x13367474, vg = 0x0F4BB8A3, vh = 0xA8F1AB2B\<rparr>"
  by (simp add: sha_round_def Sigma0_def Sigma1_def Ch_def Maj_def rotr_def Let_def)

lemma idx_rounds_40:
  "foldl sha_round
     \<lparr>va = 0x0F4A0AB0, vb = 0x86AC0990, vc = 0x3AF20DC4, vd = 0x82DE179D,
      ve = 0xDBF3CAD6, vf = 0x13367474, vg = 0x0F4BB8A3, vh = 0xA8F1AB2B\<rparr>
     [(0xA2BFE8A1, 0x0EC5AA48), (0xA81A664B, 0x57A2ACB7), (0xC24B8B70, 0x8F3DF3E2), (0xC76C51A3, 0x5F1B62D5)] =
     \<lparr>va = 0x7EAFE1B3, vb = 0xB13960E5, vc = 0x10858201, vd = 0xF765CB19,
      ve = 0x4DF3E32C, vf = 0xDE7DFF76, vg = 0x11D0D600, vh = 0xECE1A065\<rparr>"
  by (simp add: sha_round_def Sigma0_def Sigma1_def Ch_def Maj_def rotr_def Let_def)

lemma idx_rounds_44:
  "foldl sha_round
     \<lparr>va = 0x7EAFE1B3, vb = 0xB13960E5, vc = 0x10858201, vd = 0xF765CB19,
      ve = 0x4DF3E32C, vf = 0xDE7DFF76, vg = 0x11D0D600, vh = 0xECE1A065\<rparr>
     [(0xD192E819, 0xB148CEB8), (0xD6990624, 0xBD895410), (0xF40E3585, 0x6692425A), (0x106AA070, 0x6A006944)] =
     \<lparr>va = 0x2D35FB79, vb = 0x8F8DD208, vc = 0xC088DE31, vd = 0x97E3D7BA,
      ve = 0x9F6CDC22, vf = 0xC7466672, vg = 0x81EFDDD0, vh = 0xF0E50149\<rparr>"
  by (simp add: sha_round_def Sigma0_def Sigma1_def Ch_def Maj_def rotr_def Let_def)

lemma idx_rounds_48:
  "foldl sha_round
     \<lparr>va = 0x2D35FB79, vb = 0x8F8DD208, vc = 0xC088DE31, vd = 0x97E3D7BA,
      ve = 0x9F6CDC22, vf = 0xC7466672, vg = 0x81EFDDD0, vh = 0xF0E50149\<rparr>
     [(0x19A4C116, 0x5403773D), (0x1E376C08, 0xBC3B0BCF), (0x2748774C, 0xD4C162FA), (0x34B0BCB5, 0x1012D2E1)] =
     \<lparr>va = 0xC494C8AE, vb = 0x1495AA34, vc = 0x7B7FCB8B, vd = 0x738C9D30,
      ve = 0x7C001A85, vf = 0xAB3B9C12, vg = 0x4566539E, vh = 0x3678A6EC\<rparr>"
  by (simp add: sha_round_def Sigma0_def Sigma1_def Ch_def Maj_def rotr_def Let_def)

lemma idx_rounds_52:
  "foldl sha_round
     \<lparr>va = 0xC494C8AE, vb = 0x1495AA34, vc = 0x7B7FCB8B, vd = 0x738C9D30,
      ve = 0x7C001A85, vf = 0xAB3B9C12, vg = 0x4566539E, vh = 0x3678A6EC\<rparr>
     [(0x391C0CB3, 0xCA72A284), (0x4ED8AA4A, 0xD47AAB0A), (0x5B9CCA4F, 0x209ABB69), (0x682E6FF3, 0xBF3A5366)] =
     \<lparr>va = 0x097615CC, vb = 0x93873CA8, vc = 0xB08CA6F2, vd = 0xA4C7EA61,
      ve = 0x402B3E3D, vf = 0x5A6A94DF, vg = 0x81E12E25, vh = 0x1C4D0F44\<rparr>"
  by (simp add: sha_round_def Sigma0_def Sigma1_def Ch_def Maj_def rotr_def Let_def)

lemma idx_rounds_56:
  "foldl sha_round
     \<lparr>va = 0x097615CC, vb = 0x93873CA8, vc = 0xB08CA6F2, vd = 0xA4C7EA61,
      ve = 0x402B3E3D, vf = 0x5A6A94DF, vg = 0x81E12E25, vh = 0x1C4D0F44\<rparr>
     [(0x748F82EE, 0xA5490E2E), (0x78A5636F, 0x3855BCF3), (0x84C87814, 0xC034A86A), (0x8CC70208, 0xE85D97C0)] =
     \<lparr>va = 0x17C56B6F, vb = 0xE6994D50, vc = 0xD8E2DBF0, vd = 0x25389F8A,
      ve = 0x066E7D67, vf = 0x0DDC37A7, vg = 0xF0D83EA8, vh = 0xC40F561D\<rparr>"
  by (simp add: sha_round_def Sigma0_def Sigma1_def Ch_def Maj_def rotr_def Let_def)

lemma idx_rounds_60:
  "foldl sha_round
     \<lparr>va = 0x17C56B6F, vb = 0xE6994D50, vc = 0xD8E2DBF0, vd = 0x25389F8A,
      ve = 0x066E7D67, vf = 0x0DDC37A7, vg = 0xF0D83EA8, vh = 0xC40F561D\<rparr>
     [(0x90BEFFFA, 0xAA99C640), (0xA4506CEB, 0x7FD08324), (0xBEF9A3F7, 0xA15493A8), (0xC67178F2, 0x0F19F8AD)] =
     \<lparr>va = 0x19131EB8, vb = 0x1325383B, vc = 0x191573F3, vd = 0x5DF1BFDE,
      ve = 0x85B212C1, vf = 0xCFD6B159, vg = 0xEAB4E778, vh = 0x2144BB49\<rparr>"
  by (simp add: sha_round_def Sigma0_def Sigma1_def Ch_def Maj_def rotr_def Let_def)

lemma idx_compress:
  "compress H256
    [0x32, 0x30, 0x32, 0x30, 0x31, 0x32, 0x33, 0x80, 0x00, 0x00, 0x00, 0x00, 0x00, 0x00, 0x00, 0x00,
     0x00, 0x00, 0x00, 0x00, 0x00, 0x00, 0x00, 0x00, 0x00, 0x00, 0x00, 0x00, 0x00, 0x00, 0x00, 0x00,
     0x00, 0x00, 0x00, 0x00, 0x00, 0x00, 0x00, 0x00, 0x00, 0x00, 0x00, 0x00, 0x00, 0x00, 0x00, 0x00,
     0x00, 0x00, 0x00, 0x00, 0x00, 0x00, 0x00, 0x00, 0x00, 0x00, 0x00, 0x00, 0x00, 0x00, 0x00, 0x38] =
    [0x831D051F, 0xCE8CE6C0, 0x55846765, 0x0341B518, 0xD6C06540, 0x6ADC19E5, 0x0A38C123, 0x7D258862]"
proof -
  have z: "zip K256
    [0x32303230, 0x31323380, 0x00000000, 0x00000000, 0x00000000, 0x00000000, 0x00000000, 0x00000000,
     0x00000000, 0x00000000, 0x00000000, 0x00000000, 0x00000000, 0x00000000, 0x00000000, 0x00000038,
     0xBCD4608B, 0x314D3380, 0xBC7B9CE8, 0x3FBC4DC3, 0xBDC65755, 0xAF56173A, 0xE16F1906, 0x8626384F,
     0xA0E92ADC, 0x978B5741, 0xEFDA4BE6, 0x7F337336, 0x1C0A73BE, 0xB95155A9, 0x6DE4076E, 0x39FAB6D0,
     0x224C6A5F, 0x50B1908F, 0x8714355F, 0x7F1F58E0, 0xF8B8687F, 0x3C5C9BAB, 0x56536817, 0x6F0E7065,
     0x0EC5AA48, 0x57A2ACB7, 0x8F3DF3E2, 0x5F1B62D5, 0xB148CEB8, 0xBD895410, 0x6692425A, 0x6A006944,
     0x5403773D, 0xBC3B0BCF, 0xD4C162FA, 0x1012D2E1, 0xCA72A284, 0xD47AAB0A, 0x209ABB69, 0xBF3A5366,
     0xA5490E2E, 0x3855BCF3, 0xC034A86A, 0xE85D97C0, 0xAA99C640, 0x7FD08324, 0xA15493A8, 0x0F19F8AD] =
     [(0x428A2F98, 0x32303230), (0x71374491, 0x31323380), (0xB5C0FBCF, 0x00000000), (0xE9B5DBA5, 0x00000000)] @
     [(0x3956C25B, 0x00000000), (0x59F111F1, 0x00000000), (0x923F82A4, 0x00000000), (0xAB1C5ED5, 0x00000000)] @
     [(0xD807AA98, 0x00000000), (0x12835B01, 0x00000000), (0x243185BE, 0x00000000), (0x550C7DC3, 0x00000000)] @
     [(0x72BE5D74, 0x00000000), (0x80DEB1FE, 0x00000000), (0x9BDC06A7, 0x00000000), (0xC19BF174, 0x00000038)] @
     [(0xE49B69C1, 0xBCD4608B), (0xEFBE4786, 0x314D3380), (0x0FC19DC6, 0xBC7B9CE8), (0x240CA1CC, 0x3FBC4DC3)] @
     [(0x2DE92C6F, 0xBDC65755), (0x4A7484AA, 0xAF56173A), (0x5CB0A9DC, 0xE16F1906), (0x76F988DA, 0x8626384F)] @
     [(0x983E5152, 0xA0E92ADC), (0xA831C66D, 0x978B5741), (0xB00327C8, 0xEFDA4BE6), (0xBF597FC7, 0x7F337336)] @
     [(0xC6E00BF3, 0x1C0A73BE), (0xD5A79147, 0xB95155A9), (0x06CA6351, 0x6DE4076E), (0x14292967, 0x39FAB6D0)] @
     [(0x27B70A85, 0x224C6A5F), (0x2E1B2138, 0x50B1908F), (0x4D2C6DFC, 0x8714355F), (0x53380D13, 0x7F1F58E0)] @
     [(0x650A7354, 0xF8B8687F), (0x766A0ABB, 0x3C5C9BAB), (0x81C2C92E, 0x56536817), (0x92722C85, 0x6F0E7065)] @
     [(0xA2BFE8A1, 0x0EC5AA48), (0xA81A664B, 0x57A2ACB7), (0xC24B8B70, 0x8F3DF3E2), (0xC76C51A3, 0x5F1B62D5)] @
     [(0xD192E819, 0xB148CEB8), (0xD6990624, 0xBD895410), (0xF40E3585, 0x6692425A), (0x106AA070, 0x6A006944)] @
     [(0x19A4C116, 0x5403773D), (0x1E376C08, 0xBC3B0BCF), (0x2748774C, 0xD4C162FA), (0x34B0BCB5, 0x1012D2E1)] @
     [(0x391C0CB3, 0xCA72A284), (0x4ED8AA4A, 0xD47AAB0A), (0x5B9CCA4F, 0x209ABB69), (0x682E6FF3, 0xBF3A5366)] @
     [(0x748F82EE, 0xA5490E2E), (0x78A5636F, 0x3855BCF3), (0x84C87814, 0xC034A86A), (0x8CC70208, 0xE85D97C0)] @
     [(0x90BEFFFA, 0xAA99C640), (0xA4506CEB, 0x7FD08324), (0xBEF9A3F7, 0xA15493A8), (0xC67178F2, 0x0F19F8AD)]"
    by (simp add: K256_def)
  have f: "foldl sha_round
     \<lparr>va = 0x6A09E667, vb = 0xBB67AE85, vc = 0x3C6EF372, vd = 0xA54FF53A,
      ve = 0x510E527F, vf = 0x9B05688C, vg = 0x1F83D9AB, vh = 0x5BE0CD19\<rparr>
     (zip K256
    [0x32303230, 0x31323380, 0x00000000, 0x00000000, 0x00000000, 0x00000000, 0x00000000, 0x00000000,
     0x00000000, 0x00000000, 0x00000000, 0x00000000, 0x00000000, 0x00000000, 0x00000000, 0x00000038,
     0xBCD4608B, 0x314D3380, 0xBC7B9CE8, 0x3FBC4DC3, 0xBDC65755, 0xAF56173A, 0xE16F1906, 0x8626384F,
     0xA0E92ADC, 0x978B5741, 0xEFDA4BE6, 0x7F337336, 0x1C0A73BE, 0xB95155A9, 0x6DE4076E, 0x39FAB6D0,
     0x224C6A5F, 0x50B1908F, 0x8714355F, 0x7F1F58E0, 0xF8B8687F, 0x3C5C9BAB, 0x56536817, 0x6F0E7065,
     0x0EC5AA48, 0x57A2ACB7, 0x8F3DF3E2, 0x5F1B62D5, 0xB148CEB8, 0xBD895410, 0x6692425A, 0x6A006944,
     0x5403773D, 0xBC3B0BCF, 0xD4C162FA, 0x1012D2E1, 0xCA72A284, 0xD47AAB0A, 0x209ABB69, 0xBF3A5366,
     0xA5490E2E, 0x3855BCF3, 0xC034A86A, 0xE85D97C0, 0xAA99C640, 0x7FD08324, 0xA15493A8, 0x0F19F8AD]) =
     \<lparr>va = 0x19131EB8, vb = 0x1325383B, vc = 0x191573F3, vd = 0x5DF1BFDE,
      ve = 0x85B212C1, vf = 0xCFD6B159, vg = 0xEAB4E778, vh = 0x2144BB49\<rparr>"
    by (simp only: z foldl_append idx_rounds_0 idx_rounds_4 idx_rounds_8 idx_rounds_12 idx_rounds_16 idx_rounds_20 idx_rounds_24 idx_rounds_28 idx_rounds_32 idx_rounds_36 idx_rounds_40 idx_rounds_44 idx_rounds_48 idx_rounds_52 idx_rounds_56 idx_rounds_60)
  show ?thesis
    by (simp only: compress_def idx_words idx_schedule state_of_H256 f)
       (simp add: words_of_def H256_def)
qed

lemma idx_digest:
  "sha256 [0x32, 0x30, 0x32, 0x30, 0x31, 0x32, 0x33] =
    [0x83, 0x1D, 0x05, 0x1F, 0xCE, 0x8C, 0xE6, 0xC0, 0x55, 0x84, 0x67, 0x65, 0x03, 0x41, 0xB5, 0x18,
     0xD6, 0xC0, 0x65, 0x40, 0x6A, 0xDC, 0x19, 0xE5, 0x0A, 0x38, 0xC1, 0x23, 0x7D, 0x25, 0x88, 0x62]"
  by (simp add: sha256_def idx_pad sha_blocks_numeral idx_compress be32_def)


lemma sha256_abc:
  "sha256 (TextEncoder_encode (str ''abc'')) =
    [0xBA, 0x78, 0x16, 0xBF, 0x8F, 0x01, 0xCF, 0xEA, 0x41, 0x41, 0x40, 0xDE, 0x5D, 0xAE, 0x22, 0x23,
     0xB0, 0x03, 0x61, 0xA3, 0x96, 0x17, 0x7A, 0x9C, 0xB4, 0x10, 0xFF, 0x61, 0xF2, 0x00, 0x15, 0xAD]"
proof -
  have "TextEncoder_encode (str ''abc'') = [0x61, 0x62, 0x63]"
    by (simp add: TextEncoder_encode_def str_simps utf8_bytes_def scalar_of_unit_def
          is_high_surrogate_def is_low_surrogate_def)
  then show ?thesis by (simp only: abc_digest)
qed

lemma hex_upper_numeral:
  "hex_upper (numeral k # bs)
     = HEX_DIGITS ! (unat (numeral k :: byte) div 16)
         # HEX_DIGITS ! (unat (numeral k :: byte) mod 16) # hex_upper bs"
  "hex_upper (0 # bs) = 0x30 # 0x30 # hex_upper bs"
  "hex_upper (1 # bs) = 0x30 # 0x31 # hex_upper bs"
  "hex_upper [] = []"
  by (simp_all add: hex_upper_def HEX_DIGITS_nth)

lemma locator_of_example:
  "getEncryptedFilename (str ''2020123'') (str ''987654321'')
     = str ''6287035574A6D55B49C6C76DA3A2BDEF82A9B80EC7D4E0F07AB9605AF2AF16DB.enc''"
proof -
  have "TextEncoder_encode (str ''2020123'' @ str ''|'' @ str ''987654321'')
      = [0x32, 0x30, 0x32, 0x30, 0x31, 0x32, 0x33, 0x7C, 0x39, 0x38, 0x37, 0x36, 0x35, 0x34, 0x33, 0x32,
         0x31]"
    by (simp add: TextEncoder_encode_def str_simps utf8_bytes_def scalar_of_unit_def
          is_high_surrogate_def is_low_surrogate_def)
  then show ?thesis
    by (simp only: getEncryptedFilename_eq loc_digest)
       (simp add: hex_upper_numeral HEX_DIGITS_nth str_simps)
qed

lemma getHash_of_example:
  "getHash (str ''2020123'') = str ''831D051FCE8CE6C0558467650341B518D6C065406ADC19E50A38C1237D258862''"
proof -
  have "TextEncoder_encode (str ''2020123'') = [0x32, 0x30, 0x32, 0x30, 0x31, 0x32, 0x33]"
    by (simp add: TextEncoder_encode_def str_simps utf8_bytes_def scalar_of_unit_def
          is_high_surrogate_def is_low_surrogate_def)
  then show ?thesis
    by (simp only: getHash_def hex_join_eq idx_digest)
       (simp add: hex_upper_numeral HEX_DIGITS_nth str_simps)
qed

section \<open>The locator each handler fetches\<close>

lemma submit_alt_fetch_fails:
  assumes "snd (fetchFile H (getHash (trim i))) = Inl e"
  shows "submit_alt H ui i d = (failure_page ui e, [Fetch (files_url @ getHash (trim i))])"
  by (simp add: submit_alt_def alt_try_fetch_fails [OF assms] failure_page_def)

lemma submit_alt_decrypt_fails:
  assumes "snd (fetchFile H (getHash (trim i))) = Inr blob"
    and "snd (decrypt H (derived_key (trim d) (trim i)) blob) = Inl e"
  shows "submit_alt H ui i d =
    (failure_page ui e, Fetch (files_url @ getHash (trim i))
                          # fst (decrypt H (derived_key (trim d) (trim i)) blob))"
  by (simp add: submit_alt_def alt_try_fetched [OF assms(1)] assms(2) failure_page_def)

lemma submit_alt_first_call:
  "take 1 (snd (submit_alt H ui i d)) = [Fetch (files_url @ getHash (trim i))]"
proof (cases "snd (fetchFile H (getHash (trim i)))")
  case (Inl e)
  then show ?thesis by (simp add: submit_alt_fetch_fails)
next
  case (Inr blob)
  show ?thesis
  proof (cases "snd (decrypt H (derived_key (trim d) (trim i)) blob)")
    case (Inl e)
    with Inr show ?thesis by (simp add: submit_alt_decrypt_fails)
  next
    case (Inr content)
    with \<open>snd (fetchFile H (getHash (trim i))) = Inr blob\<close>
    show ?thesis by (simp add: submit_alt_success)
  qed
qed

text \<open>
  The handler of \<^verbatim>\<open>crypto.js\<close> requests, as its first external call, the file named
  by the upper-case hexadecimal SHA-256 digest of index, \<^verbatim>\<open>|\<close>, id (64 digits)
  followed by \<^verbatim>\<open>.enc\<close>.
\<close>

lemma submit_main_first_call:
  "take 1 (snd (submit_main H ui i d))
     = [Fetch (files_url @ hex_upper (sha256 (TextEncoder_encode (trim i @ str ''|'' @ trim d)))
                @ str ''.enc'')]
   \<and> length (hex_upper (sha256 (TextEncoder_encode (trim i @ str ''|'' @ trim d)))) = 64
   \<and> set (hex_upper (sha256 (TextEncoder_encode (trim i @ str ''|'' @ trim d))))
       \<subseteq> set (str ''0123456789ABCDEF'')"
  using hex_upper_chars [of "sha256 (TextEncoder_encode (trim i @ str ''|'' @ trim d))"]
  by (simp add: submit_main_cases getEncryptedFilename_eq length_hex_upper length_sha256
        HEX_DIGITS_def split: sum.split)

lemma getHash_differs: "getHash i \<noteq> getEncryptedFilename j d"
proof
  assume "getHash i = getEncryptedFilename j d"
  then have "length (getHash i) = length (getEncryptedFilename j d)" by simp
  then show False by (simp add: length_getHash length_getEncryptedFilename)
qed

lemma trim_index: "trim (str ''2020123'') = str ''2020123''"
  by (simp add: trim_def str_simps is_js_space_def)

lemma trim_id: "trim (str ''987654321'') = str ''987654321''"
  by (simp add: trim_def str_simps is_js_space_def)

text \<open>
  C1 at the identity of the specification's example, index \<^verbatim>\<open>2020123\<close> and id
  \<^verbatim>\<open>987654321\<close>. The handler of \<^verbatim>\<open>crypto.js\<close> requests the locator of the claim.
  The handler of \<^verbatim>\<open>crypto-alternative.js\<close> requests the digest of the index alone,
  without \<^verbatim>\<open>|\<close>, id and \<^verbatim>\<open>.enc\<close>: another name.
\<close>

theorem submit_alt_fetches_index_hash:
  "take 1 (snd (submit_alt H ui (str ''2020123'') (str ''987654321'')))
     = [Fetch (files_url
          @ str ''831D051FCE8CE6C0558467650341B518D6C065406ADC19E50A38C1237D258862'')]
   \<and> take 1 (snd (submit_main H ui (str ''2020123'') (str ''987654321'')))
     = [Fetch (files_url
          @ str ''6287035574A6D55B49C6C76DA3A2BDEF82A9B80EC7D4E0F07AB9605AF2AF16DB.enc'')]
   \<and> getHash (str ''2020123'') = hex_upper (sha256 (TextEncoder_encode (str ''2020123'')))
   \<and> getHash (str ''2020123'') \<noteq> getEncryptedFilename (str ''2020123'') (str ''987654321'')"
proof -
  have a: "take 1 (snd (submit_alt H ui (str ''2020123'') (str ''987654321'')))
             = [Fetch (files_url @ getHash (str ''2020123''))]"
    using submit_alt_first_call [of H ui "str ''2020123''" "str ''987654321''"]
    by (simp only: trim_index)
  have b: "getHash (str ''2020123'') = hex_upper (sha256 (TextEncoder_encode (str ''2020123'')))"
    by (simp add: getHash_def hex_join_eq)
  have c: "take 1 (snd (submit_main H ui (str ''2020123'') (str ''987654321'')))
             = [Fetch (files_url @ getEncryptedFilename (str ''2020123'') (str ''987654321''))]"
    using submit_main_first_call [of H ui "str ''2020123''" "str ''987654321''"]
    by (simp only: trim_index trim_id getEncryptedFilename_eq)
  show ?thesis
    using a b c getHash_differs [of "str ''2020123''" "str ''2020123''" "str ''987654321''"]
    by (simp only: getHash_of_example locator_of_example) blast
qed

end
